theory Spec2Isabelle
  imports Complex_Main
begin

section \<open>JavaScript values used by the services\<close>

text \<open>
  A JavaScript string is a sequence of UTF-16 code units. The texts the services emit are
  Russian, so the string literals of the source are written here as the lists of their code
  units; \<open>lit\<close> embeds the ASCII literals (type tags, severities, categories).

  Numbers are modelled exactly: a time value is an \<open>int\<close> (milliseconds since the epoch),
  an amount is a \<open>nat\<close> (whole currency units, below \<open>2^53\<close>) and the quotients that
  the rules compare are rationals; the cut points 0.5, 1 and 2 billion and the day counts of
  calendar dates are decided the same way by the doubles of the source. Where the rounding
  of a double shows in a result, in the quotient that \<open>formatAmount\<close> prints, the quotient
  is the IEEE one (\<open>divideNumbers\<close>).
\<close>

type_synonym jsstring = "nat list"

definition lit :: "string \<Rightarrow> jsstring" where
  "lit s = map of_char s"

text \<open>\<open>String(n)\<close> for an integer \<open>n\<close> (below \<open>10^21\<close> in size, where JavaScript still
  prints every digit).\<close>

fun digits :: "nat \<Rightarrow> jsstring" where
  "digits n = (if n < 10 then [48 + n] else digits (n div 10) @ [48 + n mod 10])"

declare digits.simps [simp del]

definition numberToString :: "int \<Rightarrow> jsstring" where
  "numberToString i = (if i < 0 then 45 # digits (nat (- i)) else digits (nat i))"

text \<open>\<open>x.toFixed(f)\<close> for \<open>0 \<le> x < 10^21\<close>: the integer \<open>n\<close> with \<open>n / 10^f\<close> nearest to
  \<open>x\<close> (the larger one on a tie), printed with \<open>f\<close> digits after the point.\<close>

definition toFixed :: "rat \<Rightarrow> nat \<Rightarrow> jsstring" where
  "toFixed x f =
     (let n = nat \<lfloor>x * 10 ^ f + 1 / 2\<rfloor>;
          m = digits n;
          m = replicate (f + 1 - length m) 48 @ m;
          k = length m
      in if f = 0 then m else take (k - f) m @ [46] @ drop (k - f) m)"

text \<open>
  \<open>p / q\<close> for two whole numbers below \<open>2^53\<close>, \<open>q\<close> not zero: the double nearest to the
  quotient, as a rational. With \<open>e\<close> the binary exponent of the quotient, the quotient is
  scaled by \<open>2^(52 - e)\<close> into the range of a 53-bit significand and rounded to the nearest
  integer, to the even one on a tie.
\<close>

fun log2floor :: "nat \<Rightarrow> nat" where
  "log2floor n = (if n < 2 then 0 else Suc (log2floor (n div 2)))"

declare log2floor.simps [simp del]

definition divideNumbers :: "nat \<Rightarrow> nat \<Rightarrow> rat" where
  "divideNumbers p q =
     (if p = 0 then 0
      else
        let e0 = int (log2floor p) - int (log2floor q);
            e = (if (if 0 \<le> e0 then q * 2 ^ nat e0 \<le> p else q \<le> p * 2 ^ nat (- e0))
                 then e0 else e0 - 1);
            k = 52 - e;
            num = (if 0 \<le> k then p * 2 ^ nat k else p);
            den = (if 0 \<le> k then q else q * 2 ^ nat (- k));
            f = num div den;
            r = num mod den;
            n = (if 2 * r < den then f else if den < 2 * r then f + 1
                 else if even f then f else f + 1)
        in if 0 \<le> k then rat_of_nat n / 2 ^ nat k else rat_of_nat n * 2 ^ nat (- k))"

text \<open>\<open>n.toLocaleString('ru-RU')\<close> for a whole number: groups of three digits separated by
  a no-break space (U+00A0), as the Russian locale data prescribe.\<close>

fun toLocaleString :: "nat \<Rightarrow> jsstring" where
  "toLocaleString n =
     (if n < 1000 then digits n
      else toLocaleString (n div 1000) @ [160] @
           replicate (3 - length (digits (n mod 1000))) 48 @ digits (n mod 1000))"

declare toLocaleString.simps [simp del]

definition mathCeil :: "rat \<Rightarrow> int" where
  "mathCeil x = \<lceil>x\<rceil>"

definition mathRound :: "rat \<Rightarrow> int" where
  "mathRound x = \<lfloor>x + 1 / 2\<rfloor>"

subsection \<open>The runtime the services read\<close>

text \<open>
  \<open>clock\<close> is the time value \<open>new Date()\<close> returns when the engine runs, \<open>localTZA\<close> the
  offset of local time from UTC in milliseconds at a given time value (\<open>getMonth\<close> is a
  local-time accessor), and \<open>OPENROUTER_API_KEY\<close> the entry of \<open>process.env\<close>, if set.
\<close>

record runtime =
  clock :: int
  localTZA :: "int \<Rightarrow> int"
  OPENROUTER_API_KEY :: "jsstring option"

definition msPerDay :: int where
  "msPerDay = 1000 * 60 * 60 * 24"

text \<open>The month (0 to 11) of a day number counted from 1 January 1970, in the proleptic
  Gregorian calendar: the day is located in its 400-year era, then in its year starting on
  1 March, then in its month.\<close>

definition monthFromDay :: "int \<Rightarrow> nat" where
  "monthFromDay d =
     (let doe = (d + 719468) mod 146097;
          yoe = (doe - doe div 1460 + doe div 36524 - doe div 146096) div 365;
          doy = doe - (365 * yoe + yoe div 4 - yoe div 100);
          mp = (5 * doy + 2) div 153
      in nat (if mp < 10 then mp + 2 else mp - 10))"

definition getMonth :: "runtime \<Rightarrow> int \<Rightarrow> nat" where
  "getMonth rt t = monthFromDay ((t + localTZA rt t) div msPerDay)"

section \<open>Data model of the tender service\<close>

text \<open>
  The fields of a tender that the engine reads. The three dates are held as the time values
  that \<open>new Date(tender.executionStart)\<close>, \<open>new Date(tender.executionEnd)\<close> and
  \<open>new Date(tender.deadline)\<close> construct.
\<close>

record recommendation =
  type :: jsstring
  title :: jsstring
  description :: jsstring

record finding =
  type :: jsstring
  severity :: jsstring
  title :: jsstring
  description :: jsstring

record tender =
  title :: jsstring
  category :: jsstring
  amount :: nat
  executionStart :: int
  executionEnd :: int
  deadline :: int

text \<open>The four locals that the rules of \<open>analyzeTenderRisks\<close> update, and the object it
  returns.\<close>

record locals =
  riskScore :: int
  risks :: "finding list"
  warnings :: "finding list"
  recommendations :: "recommendation list"

record assessment = locals +
  riskLevel :: jsstring
  summary :: jsstring

subsection \<open>String literals of \<open>tenderService.js\<close>\<close>

definition seasonalTitle :: "jsstring" where \<comment> \<open>line 77\<close>
  "seasonalTitle = [1057, 1077, 1079, 1086, 1085, 1085, 1099, 1081, 32, 1088, 1080, 1089, 1082]"

definition seasonalDescription :: "jsstring \<Rightarrow> jsstring \<Rightarrow> jsstring" where \<comment> \<open>line 78\<close>
  "seasonalDescription startMonth endMonth = [1042, 1099, 1087, 1086, 1083, 1085, 1077, 1085,
     1080, 1077, 32, 1089, 1090, 1088, 1086, 1080, 1090, 1077, 1083, 1100, 1085, 1099, 1093, 32,
     1088, 1072, 1073, 1086, 1090, 32, 1079, 1072, 1087, 1083, 1072, 1085, 1080, 1088, 1086,
     1074, 1072, 1085, 1086, 32, 1085, 1072, 32, 1079, 1080, 1084, 1085, 1080, 1081, 32, 1087,
     1077, 1088, 1080, 1086, 1076, 32, 40] @ startMonth @ [32, 45, 32] @ endMonth @ [41, 46, 32,
     1053, 1080, 1079, 1082, 1080, 1077, 32, 1090, 1077, 1084, 1087, 1077, 1088, 1072, 1090,
     1091, 1088, 1099, 32, 1084, 1086, 1075, 1091, 1090, 32, 1087, 1088, 1080, 1074, 1077, 1089,
     1090, 1080, 32, 1082, 32, 1089, 1088, 1099, 1074, 1091, 32, 1089, 1088, 1086, 1082, 1086,
     1074, 32, 1080, 32, 1089, 1085, 1080, 1078, 1077, 1085, 1080, 1102, 32, 1082, 1072, 1095,
     1077, 1089, 1090, 1074, 1072, 32, 1088, 1072, 1073, 1086, 1090, 46]"

definition timingTitle :: "jsstring" where \<comment> \<open>line 83\<close>
  "timingTitle = [1055, 1077, 1088, 1077, 1085, 1086, 1089, 32, 1089, 1088, 1086, 1082, 1086,
     1074]"

definition timingDescription :: "jsstring" where \<comment> \<open>line 84\<close>
  "timingDescription = [1056, 1077, 1082, 1086, 1084, 1077, 1085, 1076, 1091, 1077, 1090, 1089,
     1103, 32, 1087, 1077, 1088, 1077, 1085, 1077, 1089, 1090, 1080, 32, 1085, 1072, 1095, 1072,
     1083, 1086, 32, 1088, 1072, 1073, 1086, 1090, 32, 1085, 1072, 32, 1074, 1077, 1089, 1077,
     1085, 1085, 1080, 1081, 32, 1087, 1077, 1088, 1080, 1086, 1076, 32, 40, 1072, 1087, 1088,
     1077, 1083, 1100, 45, 1084, 1072, 1081, 41, 32, 1076, 1083, 1103, 32, 1089, 1085, 1080,
     1078, 1077, 1085, 1080, 1103, 32, 1088, 1080, 1089, 1082, 1086, 1074, 46]"

definition financialHighTitle :: "jsstring" where \<comment> \<open>line 96\<close>
  "financialHighTitle = [1042, 1099, 1089, 1086, 1082, 1072, 1103, 32, 1089, 1090, 1086, 1080,
     1084, 1086, 1089, 1090, 1100, 32, 1082, 1086, 1085, 1090, 1088, 1072, 1082, 1090, 1072]"

definition financialHighDescription :: "jsstring \<Rightarrow> jsstring" where \<comment> \<open>line 97\<close>
  "financialHighDescription amountText = [1057, 1091, 1084, 1084, 1072, 32, 1082, 1086, 1085,
     1090, 1088, 1072, 1082, 1090, 1072, 32] @ amountText @ [32, 1087, 1088, 1077, 1074, 1099,
     1096, 1072, 1077, 1090, 32, 50, 32, 1084, 1083, 1088, 1076, 32, 1090, 1077, 1085, 1075,
     1077, 46, 32, 1050, 1086, 1085, 1090, 1088, 1072, 1082, 1090, 1099, 32, 1090, 1072, 1082,
     1086, 1075, 1086, 32, 1084, 1072, 1089, 1096, 1090, 1072, 1073, 1072, 32, 1090, 1088, 1077,
     1073, 1091, 1102, 1090, 32, 1091, 1089, 1080, 1083, 1077, 1085, 1085, 1086, 1075, 1086, 32,
     1082, 1086, 1085, 1090, 1088, 1086, 1083, 1103, 32, 1080, 32, 1087, 1086, 1101, 1090, 1072,
     1087, 1085, 1086, 1081, 32, 1087, 1088, 1080, 1077, 1084, 1082, 1080, 32, 1088, 1072, 1073,
     1086, 1090, 46]"

definition controlTitle :: "jsstring" where \<comment> \<open>line 102\<close>
  "controlTitle = [1055, 1086, 1101, 1090, 1072, 1087, 1085, 1099, 1081, 32, 1082, 1086, 1085,
     1090, 1088, 1086, 1083, 1100]"

definition controlDescription :: "jsstring" where \<comment> \<open>line 103\<close>
  "controlDescription = [1056, 1077, 1082, 1086, 1084, 1077, 1085, 1076, 1091, 1077, 1090, 1089,
     1103, 32, 1088, 1072, 1079, 1073, 1080, 1090, 1100, 32, 1082, 1086, 1085, 1090, 1088, 1072,
     1082, 1090, 32, 1085, 1072, 32, 1101, 1090, 1072, 1087, 1099, 32, 1089, 32, 1087, 1088,
     1086, 1084, 1077, 1078, 1091, 1090, 1086, 1095, 1085, 1086, 1081, 32, 1087, 1088, 1080,
     1077, 1084, 1082, 1086, 1081, 32, 1080, 32, 1086, 1087, 1083, 1072, 1090, 1086, 1081, 32,
     1087, 1086, 32, 1092, 1072, 1082, 1090, 1091, 32, 1074, 1099, 1087, 1086, 1083, 1085, 1077,
     1085, 1080, 1103, 46]"

definition financialMediumTitle :: "jsstring" where \<comment> \<open>line 110\<close>
  "financialMediumTitle = [1047, 1085, 1072, 1095, 1080, 1090, 1077, 1083, 1100, 1085, 1072,
     1103, 32, 1089, 1091, 1084, 1084, 1072, 32, 1082, 1086, 1085, 1090, 1088, 1072, 1082, 1090,
     1072]"

definition financialMediumDescription :: "jsstring \<Rightarrow> jsstring" where \<comment> \<open>line 111\<close>
  "financialMediumDescription amountText = [1057, 1091, 1084, 1084, 1072, 32, 1082, 1086, 1085,
     1090, 1088, 1072, 1082, 1090, 1072, 32] @ amountText @ [32, 1090, 1088, 1077, 1073, 1091,
     1077, 1090, 32, 1090, 1097, 1072, 1090, 1077, 1083, 1100, 1085, 1086, 1081, 32, 1087, 1088,
     1086, 1074, 1077, 1088, 1082, 1080, 32, 1087, 1086, 1089, 1090, 1072, 1074, 1097, 1080,
     1082, 1072, 46]"

definition deadlineTitle :: "jsstring" where \<comment> \<open>line 124\<close>
  "deadlineTitle = [1057, 1078, 1072, 1090, 1099, 1077, 32, 1089, 1088, 1086, 1082, 1080, 32,
     1087, 1086, 1076, 1072, 1095, 1080, 32, 1079, 1072, 1103, 1074, 1086, 1082]"

definition deadlineDescription :: "jsstring \<Rightarrow> jsstring" where \<comment> \<open>line 125\<close>
  "deadlineDescription days = [1044, 1086, 32, 1086, 1082, 1086, 1085, 1095, 1072, 1085, 1080,
     1103, 32, 1087, 1088, 1080, 1077, 1084, 1072, 32, 1079, 1072, 1103, 1074, 1086, 1082, 32,
     1086, 1089, 1090, 1072, 1083, 1086, 1089, 1100, 32] @ days @ [32, 1076, 1085, 1077, 1081,
     46, 32, 1050, 1086, 1088, 1086, 1090, 1082, 1080, 1077, 32, 1089, 1088, 1086, 1082, 1080,
     32, 1084, 1086, 1075, 1091, 1090, 32, 1086, 1075, 1088, 1072, 1085, 1080, 1095, 1080, 1090,
     1100, 32, 1082, 1086, 1085, 1082, 1091, 1088, 1077, 1085, 1094, 1080, 1102, 46]"

definition timelineTitle :: "jsstring" where \<comment> \<open>line 139\<close>
  "timelineTitle = [1053, 1077, 1088, 1077, 1072, 1083, 1080, 1089, 1090, 1080, 1095, 1085,
     1099, 1077, 32, 1089, 1088, 1086, 1082, 1080, 32, 1074, 1099, 1087, 1086, 1083, 1085, 1077,
     1085, 1080, 1103]"

definition timelineDescription :: "jsstring \<Rightarrow> jsstring \<Rightarrow> jsstring" where \<comment> \<open>line 140\<close>
  "timelineDescription months amountText = [1057, 1088, 1086, 1082, 32, 1074, 1099, 1087, 1086,
     1083, 1085, 1077, 1085, 1080, 1103, 32, 40] @ months @ [32, 1084, 1077, 1089, 46, 41, 32,
     1084, 1086, 1078, 1077, 1090, 32, 1073, 1099, 1090, 1100, 32, 1085, 1077, 1076, 1086, 1089,
     1090, 1072, 1090, 1086, 1095, 1085, 1099, 1084, 32, 1076, 1083, 1103, 32, 1082, 1086, 1085,
     1090, 1088, 1072, 1082, 1090, 1072, 32, 1085, 1072, 32] @ amountText @ [46, 32, 1045, 1089,
     1090, 1100, 32, 1088, 1080, 1089, 1082, 32, 1089, 1088, 1099, 1074, 1072, 32, 1089, 1088,
     1086, 1082, 1086, 1074, 32, 1080, 1083, 1080, 32, 1089, 1085, 1080, 1078, 1077, 1085, 1080,
     1103, 32, 1082, 1072, 1095, 1077, 1089, 1090, 1074, 1072, 46]"

definition combinedTitle :: "jsstring" where \<comment> \<open>line 151\<close>
  "combinedTitle = [1050, 1086, 1084, 1073, 1080, 1085, 1080, 1088, 1086, 1074, 1072, 1085,
     1085, 1099, 1081, 32, 1088, 1080, 1089, 1082]"

definition combinedDescription :: "jsstring \<Rightarrow> jsstring" where \<comment> \<open>line 152\<close>
  "combinedDescription amountText = [1050, 1088, 1091, 1087, 1085, 1099, 1081, 32, 1089, 1090,
     1088, 1086, 1080, 1090, 1077, 1083, 1100, 1085, 1099, 1081, 32, 1082, 1086, 1085, 1090,
     1088, 1072, 1082, 1090, 32, 40] @ amountText @ [41, 32, 1089, 32, 1074, 1099, 1087, 1086,
     1083, 1085, 1077, 1085, 1080, 1077, 1084, 32, 1074, 32, 1079, 1080, 1084, 1085, 1080, 1081,
     32, 1087, 1077, 1088, 1080, 1086, 1076, 46, 32, 1057, 1086, 1095, 1077, 1090, 1072, 1085,
     1080, 1077, 32, 1092, 1072, 1082, 1090, 1086, 1088, 1086, 1074, 32, 1079, 1085, 1072, 1095,
     1080, 1090, 1077, 1083, 1100, 1085, 1086, 32, 1087, 1086, 1074, 1099, 1096, 1072, 1077,
     1090, 32, 1074, 1077, 1088, 1086, 1103, 1090, 1085, 1086, 1089, 1090, 1100, 32, 1087, 1088,
     1086, 1073, 1083, 1077, 1084, 32, 1089, 32, 1080, 1089, 1087, 1086, 1083, 1085, 1077, 1085,
     1080, 1077, 1084, 46]"

definition guaranteeTitle :: "jsstring" where \<comment> \<open>line 157\<close>
  "guaranteeTitle = [1059, 1089, 1080, 1083, 1077, 1085, 1080, 1077, 32, 1075, 1072, 1088, 1072,
     1085, 1090, 1080, 1081]"

definition guaranteeDescription :: "jsstring" where \<comment> \<open>line 158\<close>
  "guaranteeDescription = [1056, 1077, 1082, 1086, 1084, 1077, 1085, 1076, 1091, 1077, 1090,
     1089, 1103, 32, 1091, 1074, 1077, 1083, 1080, 1095, 1080, 1090, 1100, 32, 1088, 1072, 1079,
     1084, 1077, 1088, 32, 1086, 1073, 1077, 1089, 1087, 1077, 1095, 1077, 1085, 1080, 1103, 32,
     1082, 1086, 1085, 1090, 1088, 1072, 1082, 1090, 1072, 32, 1080, 32, 1074, 1082, 1083, 1102,
     1095, 1080, 1090, 1100, 32, 1096, 1090, 1088, 1072, 1092, 1085, 1099, 1077, 32, 1089, 1072,
     1085, 1082, 1094, 1080, 1080, 32, 1079, 1072, 32, 1089, 1088, 1099, 1074, 32, 1089, 1088,
     1086, 1082, 1086, 1074, 46]"

definition categoryTitle :: "jsstring" where \<comment> \<open>line 167\<close>
  "categoryTitle = [1048, 1084, 1087, 1086, 1088, 1090, 1085, 1086, 1077, 32, 1086, 1073, 1086,
     1088, 1091, 1076, 1086, 1074, 1072, 1085, 1080, 1077]"

definition categoryDescription :: "jsstring" where \<comment> \<open>line 168\<close>
  "categoryDescription = [1052, 1077, 1076, 1080, 1094, 1080, 1085, 1089, 1082, 1086, 1077, 32,
     1086, 1073, 1086, 1088, 1091, 1076, 1086, 1074, 1072, 1085, 1080, 1077, 32, 1095, 1072,
     1089, 1090, 1086, 32, 1080, 1084, 1087, 1086, 1088, 1090, 1080, 1088, 1091, 1077, 1090,
     1089, 1103, 46, 32, 1059, 1095, 1080, 1090, 1099, 1074, 1072, 1081, 1090, 1077, 32, 1088,
     1080, 1089, 1082, 1080, 32, 1082, 1086, 1083, 1077, 1073, 1072, 1085, 1080, 1103, 32, 1082,
     1091, 1088, 1089, 1072, 32, 1074, 1072, 1083, 1102, 1090, 32, 1080, 32, 1083, 1086, 1075,
     1080, 1089, 1090, 1080, 1095, 1077, 1089, 1082, 1080, 1077, 32, 1079, 1072, 1076, 1077,
     1088, 1078, 1082, 1080, 46]"

definition currencyTitle :: "jsstring" where \<comment> \<open>line 173\<close>
  "currencyTitle = [1042, 1072, 1083, 1102, 1090, 1085, 1099, 1077, 32, 1088, 1080, 1089, 1082,
     1080]"

definition currencyDescription :: "jsstring" where \<comment> \<open>line 174\<close>
  "currencyDescription = [1056, 1077, 1082, 1086, 1084, 1077, 1085, 1076, 1091, 1077, 1090,
     1089, 1103, 32, 1092, 1080, 1082, 1089, 1080, 1088, 1086, 1074, 1072, 1090, 1100, 32, 1094,
     1077, 1085, 1091, 32, 1074, 32, 1090, 1077, 1085, 1075, 1077, 32, 1080, 1083, 1080, 32,
     1087, 1088, 1077, 1076, 1091, 1089, 1084, 1086, 1090, 1088, 1077, 1090, 1100, 32, 1084,
     1077, 1093, 1072, 1085, 1080, 1079, 1084, 32, 1082, 1086, 1088, 1088, 1077, 1082, 1090,
     1080, 1088, 1086, 1074, 1082, 1080, 32, 1087, 1088, 1080, 32, 1080, 1079, 1084, 1077, 1085,
     1077, 1085, 1080, 1080, 32, 1082, 1091, 1088, 1089, 1072, 32, 1073, 1086, 1083, 1077, 1077,
     32, 49, 48, 37, 46]"

definition supportTitle :: "jsstring" where \<comment> \<open>line 181\<close>
  "supportTitle = [1058, 1077, 1093, 1085, 1080, 1095, 1077, 1089, 1082, 1072, 1103, 32, 1087,
     1086, 1076, 1076, 1077, 1088, 1078, 1082, 1072]"

definition supportDescription :: "jsstring" where \<comment> \<open>line 182\<close>
  "supportDescription = [1059, 1073, 1077, 1076, 1080, 1090, 1077, 1089, 1100, 44, 32, 1095,
     1090, 1086, 32, 1082, 1086, 1085, 1090, 1088, 1072, 1082, 1090, 32, 1074, 1082, 1083, 1102,
     1095, 1072, 1077, 1090, 32, 1075, 1072, 1088, 1072, 1085, 1090, 1080, 1081, 1085, 1086,
     1077, 32, 1086, 1073, 1089, 1083, 1091, 1078, 1080, 1074, 1072, 1085, 1080, 1077, 32, 1080,
     32, 1090, 1077, 1093, 1085, 1080, 1095, 1077, 1089, 1082, 1091, 1102, 32, 1087, 1086, 1076,
     1076, 1077, 1088, 1078, 1082, 1091, 32, 1084, 1080, 1085, 1080, 1084, 1091, 1084, 32, 1085,
     1072, 32, 50, 32, 1075, 1086, 1076, 1072, 46]"

definition months :: "jsstring list" where \<comment> \<open>lines 261-262\<close>
  "months = [[1103, 1085, 1074, 1072, 1088, 1100], [1092, 1077, 1074, 1088, 1072, 1083, 1100],
     [1084, 1072, 1088, 1090], [1072, 1087, 1088, 1077, 1083, 1100], [1084, 1072, 1081],
     [1080, 1102, 1085, 1100], [1080, 1102, 1083, 1100], [1072, 1074, 1075, 1091, 1089, 1090],
     [1089, 1077, 1085, 1090, 1103, 1073, 1088, 1100], [1086, 1082, 1090, 1103, 1073, 1088, 1100],
     [1085, 1086, 1103, 1073, 1088, 1100], [1076, 1077, 1082, 1072, 1073, 1088, 1100]]"

definition levelText :: "(jsstring \<times> jsstring) list" where \<comment> \<open>lines 213-217\<close>
  "levelText = [(lit ''low'', [1085, 1080, 1079, 1082, 1080, 1081]),
     (lit ''medium'', [1089, 1088, 1077, 1076, 1085, 1080, 1081]),
     (lit ''high'', [1074, 1099, 1089, 1086, 1082, 1080, 1081])]"

definition summaryHeader :: "jsstring \<Rightarrow> jsstring \<Rightarrow> jsstring" where \<comment> \<open>line 219\<close>
  "summaryHeader score level = [42, 42, 1054, 1073, 1097, 1072, 1103, 32, 1086, 1094, 1077, 1085,
     1082, 1072, 32, 1088, 1080, 1089, 1082, 1072, 58, 32] @ score @ [37, 32, 40] @ level @
     [41, 42, 42, 10, 10]"

definition summaryNoRisks :: "jsstring \<Rightarrow> jsstring" where \<comment> \<open>line 222\<close>
  "summaryNoRisks tenderTitle = [1058, 1077, 1085, 1076, 1077, 1088, 32, 34] @ tenderTitle @
     [34, 32, 1085, 1077, 32, 1080, 1084, 1077, 1077, 1090, 32, 1089, 1091, 1097, 1077, 1089,
     1090, 1074, 1077, 1085, 1085, 1099, 1093, 32, 1088, 1080, 1089, 1082, 1086, 1074, 46, 32,
     1056, 1077, 1082, 1086, 1084, 1077, 1085, 1076, 1091, 1077, 1090, 1089, 1103, 32, 1089,
     1090, 1072, 1085, 1076, 1072, 1088, 1090, 1085, 1072, 1103, 32, 1087, 1088, 1086, 1094,
     1077, 1076, 1091, 1088, 1072, 32, 1087, 1088, 1086, 1074, 1077, 1088, 1082, 1080, 32, 1087,
     1086, 1089, 1090, 1072, 1074, 1097, 1080, 1082, 1072, 46]"

definition summaryAttention :: "jsstring \<Rightarrow> jsstring" where \<comment> \<open>line 224\<close>
  "summaryAttention tenderTitle = [1058, 1077, 1085, 1076, 1077, 1088, 32, 34] @ tenderTitle @
     [34, 32, 1090, 1088, 1077, 1073, 1091, 1077, 1090, 32, 1074, 1085, 1080, 1084, 1072, 1085,
     1080, 1103, 46, 10, 10]"

definition summaryRisksHeading :: "jsstring \<Rightarrow> jsstring" where \<comment> \<open>line 227\<close>
  "summaryRisksHeading count = [42, 42, 1042, 1099, 1103, 1074, 1083, 1077, 1085, 1086, 32, 1082,
     1088, 1080, 1090, 1080, 1095, 1077, 1089, 1082, 1080, 1093, 32, 1088, 1080, 1089, 1082,
     1086, 1074, 58, 32] @ count @ [42, 42, 10]"

definition summaryWarningsHeading :: "jsstring \<Rightarrow> jsstring" where \<comment> \<open>line 235\<close>
  "summaryWarningsHeading count = [42, 42, 1055, 1088, 1077, 1076, 1091, 1087, 1088, 1077, 1078,
     1076, 1077, 1085, 1080, 1081, 58, 32] @ count @ [42, 42, 10]"

definition summaryItem :: "jsstring \<Rightarrow> jsstring" where \<comment> \<open>lines 229 and 237\<close>
  "summaryItem itemTitle = lit ''- '' @ itemTitle @ [10]"

definition billionsSuffix :: jsstring where \<comment> \<open>line 250\<close>
  "billionsSuffix = [32, 1084, 1083, 1088, 1076, 32, 8376]"

definition millionsSuffix :: jsstring where \<comment> \<open>line 252\<close>
  "millionsSuffix = [32, 1084, 1083, 1085, 32, 8376]"

definition tengeSuffix :: jsstring where \<comment> \<open>line 254\<close>
  "tengeSuffix = [32, 8376]"

definition noAnalysisText :: jsstring where \<comment> \<open>line 338\<close>
  "noAnalysisText = [1053, 1077, 32, 1091, 1076, 1072, 1083, 1086, 1089, 1100, 32, 1087, 1086,
     1083, 1091, 1095, 1080, 1090, 1100, 32, 1072, 1085, 1072, 1083, 1080, 1079]"

section \<open>The risk engine\<close>

definition formatAmount :: "nat \<Rightarrow> jsstring" where
  "formatAmount n =
     (if n \<ge> 1000000000 then toFixed (divideNumbers n 1000000000) 1 @ billionsSuffix
      else if n \<ge> 1000000 then toFixed (divideNumbers n 1000000) 0 @ millionsSuffix
      else toLocaleString n @ tengeSuffix)"

text \<open>\<open>months[monthIndex]\<close> is \<open>undefined\<close> outside the array; a template literal prints
  that as the word.\<close>

definition formatMonth :: "nat \<Rightarrow> jsstring option" where
  "formatMonth monthIndex = (if monthIndex < length months then Some (months ! monthIndex) else None)"

definition interpolate :: "jsstring option \<Rightarrow> jsstring" where
  "interpolate v = (case v of Some s \<Rightarrow> s | None \<Rightarrow> lit ''undefined'')"

definition winterMonths :: "nat list" where
  "winterMonths = [10, 11, 0, 1, 2]"

definition winterRiskCategories :: "jsstring list" where
  "winterRiskCategories = [lit ''construction'']"

definition startMonth :: "runtime \<Rightarrow> tender \<Rightarrow> nat" where
  "startMonth rt t = getMonth rt (executionStart t)"

definition endMonth :: "runtime \<Rightarrow> tender \<Rightarrow> nat" where
  "endMonth rt t = getMonth rt (executionEnd t)"

definition isWinterExecution :: "runtime \<Rightarrow> tender \<Rightarrow> bool" where
  "isWinterExecution rt t \<longleftrightarrow>
     startMonth rt t \<in> set winterMonths \<or> endMonth rt t \<in> set winterMonths"

definition amountInBillions :: "tender \<Rightarrow> rat" where
  "amountInBillions t = rat_of_nat (amount t) / 1000000000"

definition daysToDeadline :: "runtime \<Rightarrow> tender \<Rightarrow> int" where
  "daysToDeadline rt t = mathCeil (rat_of_int (deadline t - clock rt) / rat_of_int msPerDay)"

definition executionDays :: "tender \<Rightarrow> int" where
  "executionDays t =
     mathCeil (rat_of_int (executionEnd t - executionStart t) / rat_of_int msPerDay)"

definition monthsForExecution :: "tender \<Rightarrow> rat" where
  "monthsForExecution t = rat_of_int (executionDays t) / 30"

definition expectedMonths :: "tender \<Rightarrow> rat" where
  "expectedMonths t = amountInBillions t * 3"

text \<open>The objects that the rules push.\<close>

definition seasonalFinding :: "runtime \<Rightarrow> tender \<Rightarrow> finding" where
  "seasonalFinding rt t =
     \<lparr>finding.type = lit ''seasonal'', severity = lit ''high'', title = seasonalTitle,
      description = seasonalDescription (interpolate (formatMonth (startMonth rt t)))
        (interpolate (formatMonth (endMonth rt t)))\<rparr>"

definition timingRecommendation :: recommendation where
  "timingRecommendation =
     \<lparr>recommendation.type = lit ''timing'', title = timingTitle, description = timingDescription\<rparr>"

definition financialFinding :: "tender \<Rightarrow> finding" where
  "financialFinding t =
     \<lparr>finding.type = lit ''financial'', severity = lit ''high'', title = financialHighTitle,
      description = financialHighDescription (formatAmount (amount t))\<rparr>"

definition controlRecommendation :: recommendation where
  "controlRecommendation =
     \<lparr>recommendation.type = lit ''control'', title = controlTitle,
      description = controlDescription\<rparr>"

definition financialWarning :: "tender \<Rightarrow> finding" where
  "financialWarning t =
     \<lparr>finding.type = lit ''financial'', severity = lit ''medium'', title = financialMediumTitle,
      description = financialMediumDescription (formatAmount (amount t))\<rparr>"

definition deadlineWarning :: "int \<Rightarrow> finding" where
  "deadlineWarning days =
     \<lparr>finding.type = lit ''deadline'', severity = lit ''medium'', title = deadlineTitle,
      description = deadlineDescription (numberToString days)\<rparr>"

definition timelineFinding :: "tender \<Rightarrow> finding" where
  "timelineFinding t =
     \<lparr>finding.type = lit ''timeline'', severity = lit ''high'', title = timelineTitle,
      description = timelineDescription (numberToString (mathRound (monthsForExecution t)))
        (formatAmount (amount t))\<rparr>"

definition combinedFinding :: "tender \<Rightarrow> finding" where
  "combinedFinding t =
     \<lparr>finding.type = lit ''combined'', severity = lit ''critical'', title = combinedTitle,
      description = combinedDescription (formatAmount (amount t))\<rparr>"

definition guaranteeRecommendation :: recommendation where
  "guaranteeRecommendation =
     \<lparr>recommendation.type = lit ''guarantee'', title = guaranteeTitle,
      description = guaranteeDescription\<rparr>"

definition categoryWarning :: finding where
  "categoryWarning =
     \<lparr>finding.type = lit ''category'', severity = lit ''medium'', title = categoryTitle,
      description = categoryDescription\<rparr>"

definition currencyRecommendation :: recommendation where
  "currencyRecommendation =
     \<lparr>recommendation.type = lit ''currency'', title = currencyTitle,
      description = currencyDescription\<rparr>"

definition supportRecommendation :: recommendation where
  "supportRecommendation =
     \<lparr>recommendation.type = lit ''support'', title = supportTitle,
      description = supportDescription\<rparr>"

text \<open>The blocks of \<open>analyzeTenderRisks\<close>, in the order of the source; each takes the locals
  and returns them updated.\<close>

definition seasonalRisks :: "runtime \<Rightarrow> tender \<Rightarrow> locals \<Rightarrow> locals" where
  "seasonalRisks rt t a =
     (if isWinterExecution rt t \<and> category t \<in> set winterRiskCategories then
        a\<lparr>riskScore := riskScore a + 35,
          risks := risks a @ [seasonalFinding rt t],
          recommendations := recommendations a @ [timingRecommendation]\<rparr>
      else a)"

definition financialRisks :: "tender \<Rightarrow> locals \<Rightarrow> locals" where
  "financialRisks t a =
     (if amountInBillions t \<ge> 2 then
        a\<lparr>riskScore := riskScore a + 25,
          risks := risks a @ [financialFinding t],
          recommendations := recommendations a @ [controlRecommendation]\<rparr>
      else if amountInBillions t \<ge> 1 then
        a\<lparr>riskScore := riskScore a + 15,
          warnings := warnings a @ [financialWarning t]\<rparr>
      else a)"

definition deadlineRisks :: "runtime \<Rightarrow> tender \<Rightarrow> locals \<Rightarrow> locals" where
  "deadlineRisks rt t a =
     (if daysToDeadline rt t < 10 \<and> daysToDeadline rt t > 0 then
        a\<lparr>riskScore := riskScore a + 15,
          warnings := warnings a @ [deadlineWarning (daysToDeadline rt t)]\<rparr>
      else a)"

definition timelineRisks :: "tender \<Rightarrow> locals \<Rightarrow> locals" where
  "timelineRisks t a =
     (if category t = lit ''construction'' \<and> amountInBillions t \<ge> 1 / 2 then
        if monthsForExecution t < expectedMonths t * (7 / 10) then
          a\<lparr>riskScore := riskScore a + 20,
            risks := risks a @ [timelineFinding t]\<rparr>
        else a
      else a)"

definition combinedRisks :: "runtime \<Rightarrow> tender \<Rightarrow> locals \<Rightarrow> locals" where
  "combinedRisks rt t a =
     (if isWinterExecution rt t \<and> category t \<in> set winterRiskCategories
         \<and> amountInBillions t \<ge> 1 then
        a\<lparr>riskScore := riskScore a + 20,
          risks := risks a @ [combinedFinding t],
          recommendations := recommendations a @ [guaranteeRecommendation]\<rparr>
      else a)"

definition medicalRisks :: "tender \<Rightarrow> locals \<Rightarrow> locals" where
  "medicalRisks t a =
     (if category t = lit ''medical'' \<and> amountInBillions t \<ge> 1 / 2 then
        a\<lparr>warnings := warnings a @ [categoryWarning],
          recommendations := recommendations a @ [currencyRecommendation]\<rparr>
      else a)"

definition itRisks :: "tender \<Rightarrow> locals \<Rightarrow> locals" where
  "itRisks t a =
     (if category t = lit ''it'' then
        a\<lparr>recommendations := recommendations a @ [supportRecommendation]\<rparr>
      else a)"

definition initialLocals :: locals where
  "initialLocals = \<lparr>riskScore = 0, risks = [], warnings = [], recommendations = []\<rparr>"

definition rawAnalysis :: "runtime \<Rightarrow> tender \<Rightarrow> locals" where
  "rawAnalysis rt t =
     itRisks t (medicalRisks t (combinedRisks rt t (timelineRisks t (deadlineRisks rt t
       (financialRisks t (seasonalRisks rt t initialLocals))))))"

definition levelOfScore :: "int \<Rightarrow> jsstring" where
  "levelOfScore score =
     (if score \<ge> 60 then lit ''high'' else if score \<ge> 30 then lit ''medium'' else lit ''low'')"

text \<open>\<open>generateSummary\<close> is private to the module and is handed one of the three level
  names, each a key of \<open>levelText\<close>.\<close>

definition generateSummary ::
  "tender \<Rightarrow> int \<Rightarrow> jsstring \<Rightarrow> finding list \<Rightarrow> finding list \<Rightarrow> jsstring" where
  "generateSummary t score level rs ws =
     summaryHeader (numberToString score) (interpolate (map_of levelText level)) @
     (if length rs = 0 \<and> length ws = 0 then summaryNoRisks (tender.title t)
      else summaryAttention (tender.title t) @
        (if length rs > 0 then
           summaryRisksHeading (numberToString (int (length rs))) @
           concat (map (\<lambda>r. summaryItem (finding.title r)) rs) @ [10]
         else []) @
        (if length ws > 0 then
           summaryWarningsHeading (numberToString (int (length ws))) @
           concat (map (\<lambda>w. summaryItem (finding.title w)) ws)
         else []))"

definition analyzeTenderRisks :: "runtime \<Rightarrow> tender \<Rightarrow> assessment" where
  "analyzeTenderRisks rt t =
     (let a = rawAnalysis rt t;
          score = min (riskScore a) 100;
          level = levelOfScore score
      in \<lparr>riskScore = score, risks = risks a, warnings = warnings a,
           recommendations = recommendations a, riskLevel = level,
           summary = generateSummary t score level (risks a) (warnings a)\<rparr>)"

text \<open>The conditions under which rule 1 (seasonal), rule 3 (deadline) and rule 4 (timeline)
  fire.\<close>

definition seasonalTrigger :: "runtime \<Rightarrow> tender \<Rightarrow> bool" where
  "seasonalTrigger rt t \<longleftrightarrow> isWinterExecution rt t \<and> category t \<in> set winterRiskCategories"

definition deadlineTrigger :: "runtime \<Rightarrow> tender \<Rightarrow> bool" where
  "deadlineTrigger rt t \<longleftrightarrow> daysToDeadline rt t < 10 \<and> daysToDeadline rt t > 0"

definition timelineTrigger :: "tender \<Rightarrow> bool" where
  "timelineTrigger t \<longleftrightarrow>
     category t = lit ''construction'' \<and> amountInBillions t \<ge> 1 / 2 \<and>
     monthsForExecution t < expectedMonths t * (7 / 10)"

section \<open>The AI analysis with its local fallback\<close>

text \<open>
  The values a parsed response body is made of, and \<open>undefined\<close>, which reading a missing
  property yields. \<open>member\<close> and \<open>element\<close> read a property and an index of a value that is
  neither \<open>null\<close> nor \<open>undefined\<close>; \<open>member\<close> is used for the names \<open>choices\<close>,
  \<open>message\<close> and \<open>content\<close>, which no built-in prototype defines. An object is the list of
  its own properties, each name once.
\<close>

datatype jsvalue =
  Undefined
| Null
| Boolean bool
| Number rat
| String jsstring
| Array "jsvalue list"
| Object "(jsstring \<times> jsvalue) list"

datatype thrown = Error jsstring | TypeError | Rejection jsstring

definition nullish :: "jsvalue \<Rightarrow> bool" where
  "nullish v \<longleftrightarrow> v = Undefined \<or> v = Null"

definition falsy :: "jsvalue \<Rightarrow> bool" where
  "falsy v \<longleftrightarrow> v = Undefined \<or> v = Null \<or> v = Boolean False \<or> v = Number 0 \<or> v = String []"

fun member :: "jsvalue \<Rightarrow> jsstring \<Rightarrow> jsvalue" where
  "member (Object props) k = (case map_of props k of Some v \<Rightarrow> v | None \<Rightarrow> Undefined)"
| "member _ k = Undefined"

fun element :: "jsvalue \<Rightarrow> nat \<Rightarrow> jsvalue" where
  "element (Array xs) i = (if i < length xs then xs ! i else Undefined)"
| "element (String s) i = (if i < length s then String [s ! i] else Undefined)"
| "element (Object props) i = member (Object props) (digits i)"
| "element _ i = Undefined"

text \<open>What the \<open>fetch\<close> of the completion produced: a rejected promise, or a response with
  its status and a body that \<open>response.json()\<close> either rejects or parses.\<close>

datatype responseBody = Malformed jsstring | Parsed jsvalue

datatype fetchOutcome = Rejected jsstring | Response nat responseBody

definition ok :: "nat \<Rightarrow> bool" where
  "ok status \<longleftrightarrow> 200 \<le> status \<and> status \<le> 299"

record aiAnalysis =
  success :: bool
  analysis :: jsvalue
  details :: assessment
  source :: jsstring
  error :: "thrown option"

text \<open>\<open>data.choices[0]?.message?.content || '...'\<close> (line 338): the first two reads throw a
  \<open>TypeError\<close> on \<open>null\<close> and \<open>undefined\<close>, the optional ones (\<open>v?.k\<close>) yield
  \<open>undefined\<close> there.\<close>

definition optional :: "jsvalue \<Rightarrow> jsstring \<Rightarrow> jsvalue" where
  "optional v k = (if nullish v then Undefined else member v k)"

definition aiResponse :: "jsvalue \<Rightarrow> thrown + jsvalue" where
  "aiResponse data =
     (if nullish data then Inl TypeError
      else
        let choices = member data (lit ''choices'') in
        if nullish choices then Inl TypeError
        else
          let content = optional (optional (element choices 0) (lit ''message'')) (lit ''content'')
          in Inr (if falsy content then String noAnalysisText else content))"

text \<open>The \<open>try\<close> block (lines 314-348). The engine runs after the response has arrived; the
  runtime's clock is the one it reads then.\<close>

definition requestAnalysis :: "runtime \<Rightarrow> tender \<Rightarrow> fetchOutcome \<Rightarrow> thrown + aiAnalysis" where
  "requestAnalysis rt t outcome =
     (case outcome of
        Rejected msg \<Rightarrow> Inl (Rejection msg)
      | Response status body \<Rightarrow>
          if \<not> ok status then Inl (Error (lit ''OpenRouter API error: '' @ digits status))
          else
            (case body of
               Malformed msg \<Rightarrow> Inl (Rejection msg)
             | Parsed data \<Rightarrow>
                 (case aiResponse data of
                    Inl e \<Rightarrow> Inl e
                  | Inr text \<Rightarrow>
                      Inr \<lparr>success = True, analysis = text, details = analyzeTenderRisks rt t,
                           source = lit ''ai'', error = None\<rparr>)))"

definition noApiKey :: "runtime \<Rightarrow> bool" where
  "noApiKey rt \<longleftrightarrow> OPENROUTER_API_KEY rt = None \<or> OPENROUTER_API_KEY rt = Some []"

definition aiAnalyzeTender :: "runtime \<Rightarrow> tender \<Rightarrow> fetchOutcome \<Rightarrow> aiAnalysis" where
  "aiAnalyzeTender rt t outcome =
     (if noApiKey rt then
        let localAnalysis = analyzeTenderRisks rt t
        in \<lparr>success = True, analysis = String (summary localAnalysis), details = localAnalysis,
             source = lit ''local'', error = None\<rparr>
      else
        (case requestAnalysis rt t outcome of
           Inr result \<Rightarrow> result
         | Inl e \<Rightarrow>
             let localAnalysis = analyzeTenderRisks rt t
             in \<lparr>success = True, analysis = String (summary localAnalysis),
                  details = localAnalysis, source = lit ''local'', error = Some e\<rparr>))"

section \<open>The pollutant classifier\<close>









section \<open>Concrete inputs\<close>

text \<open>
  A runtime whose clock reads 1 January 2025, 00:00 UTC, in a zone five hours east of UTC,
  and a construction tender of 2.5 billion, executed from 15 January to 1 March 2025, whose
  deadline is five days after that clock reading.
\<close>

definition exampleRuntime :: runtime where
  "exampleRuntime =
     \<lparr>clock = 1735689600000, localTZA = (\<lambda>t. 18000000), OPENROUTER_API_KEY = None\<rparr>"

definition constructionTender :: tender where
  "constructionTender =
     \<lparr>title = lit ''Bridge'', category = lit ''construction'', amount = 2500000000,
      executionStart = 1736899200000, executionEnd = 1740787200000,
      deadline = 1736121600000\<rparr>"

text \<open>
  A later reading of the clock (11 January 2025), past that deadline; an IT tender of 100
  million and a supply tender of 1.5 billion with the same deadline, and a medical tender of
  700 million whose deadline (2 March 2025) is sixty days after the first clock reading. The
  three are executed from 1 May to 1 September 2025.
\<close>

definition laterRuntime :: runtime where
  "laterRuntime = exampleRuntime\<lparr>clock := 1736553600000\<rparr>"

definition itTender :: tender where
  "itTender =
     \<lparr>title = lit ''Portal'', category = lit ''it'', amount = 100000000,
      executionStart = 1746057600000, executionEnd = 1756684800000,
      deadline = 1736121600000\<rparr>"

definition supplyTender :: tender where
  "supplyTender =
     \<lparr>title = lit ''Fuel'', category = lit ''supply'', amount = 1500000000,
      executionStart = 1746057600000, executionEnd = 1756684800000,
      deadline = 1736121600000\<rparr>"

definition medicalTender :: tender where
  "medicalTender =
     \<lparr>title = lit ''Scanner'', category = lit ''medical'', amount = 700000000,
      executionStart = 1746057600000, executionEnd = 1756684800000,
      deadline = 1740873600000\<rparr>"

text \<open>The same runtime with a credential, and a response of status 200 whose body parses to
  \<open>{"choices": []}\<close>.\<close>

definition keyedRuntime :: runtime where
  "keyedRuntime = exampleRuntime\<lparr>OPENROUTER_API_KEY := Some (lit ''sk-or-example'')\<rparr>"

definition emptyChoices :: fetchOutcome where
  "emptyChoices = Response 200 (Parsed (Object [(lit ''choices'', Array [])]))"

section \<open>Evaluation lemmas\<close>

lemma lit_eq_iff [simp]: "lit s = lit t \<longleftrightarrow> s = t"
  unfolding lit_def by (simp add: inj_map_eq_map inj_def)

lemma mathCeil_days: "mathCeil (rat_of_int a / rat_of_int msPerDay) = - ((- a) div msPerDay)"
  unfolding mathCeil_def by (simp add: ceiling_divide_eq_div)

lemma amountInBillions_ge_2 [simp]: "2 \<le> amountInBillions t \<longleftrightarrow> 2000000000 \<le> amount t"
proof -
  have "2 \<le> amountInBillions t \<longleftrightarrow> rat_of_nat 2000000000 \<le> rat_of_nat (amount t)"
    unfolding amountInBillions_def by (simp add: le_divide_eq)
  then show ?thesis unfolding of_nat_le_iff .
qed

lemma amountInBillions_ge_1 [simp]: "1 \<le> amountInBillions t \<longleftrightarrow> 1000000000 \<le> amount t"
proof -
  have "1 \<le> amountInBillions t \<longleftrightarrow> rat_of_nat 1000000000 \<le> rat_of_nat (amount t)"
    unfolding amountInBillions_def by (simp add: le_divide_eq)
  then show ?thesis unfolding of_nat_le_iff .
qed

lemma amountInBillions_ge_half: "1 / 2 \<le> amountInBillions t \<longleftrightarrow> 500000000 \<le> amount t"
proof -
  have "1 / 2 \<le> amountInBillions t \<longleftrightarrow> rat_of_nat 500000000 \<le> rat_of_nat (amount t)"
    unfolding amountInBillions_def by (simp add: le_divide_eq)
  then show ?thesis unfolding of_nat_le_iff .
qed

lemma amountInBillions_ge_half' [simp]:
  "1 \<le> amountInBillions t * 2 \<longleftrightarrow> 500000000 \<le> amount t"
  using amountInBillions_ge_half [of t] by simp

text \<open>What each block does to each of the four locals.\<close>

lemma seasonalRisks_sel [simp]:
  "riskScore (seasonalRisks rt t a) = riskScore a + (if seasonalTrigger rt t then 35 else 0)"
  "risks (seasonalRisks rt t a) =
     risks a @ (if seasonalTrigger rt t then [seasonalFinding rt t] else [])"
  "warnings (seasonalRisks rt t a) = warnings a"
  "recommendations (seasonalRisks rt t a) =
     recommendations a @ (if seasonalTrigger rt t then [timingRecommendation] else [])"
  by (simp_all add: seasonalRisks_def seasonalTrigger_def)

lemma financialRisks_sel [simp]:
  "riskScore (financialRisks t a) =
     riskScore a + (if 2000000000 \<le> amount t then 25 else if 1000000000 \<le> amount t then 15 else 0)"
  "risks (financialRisks t a) =
     risks a @ (if 2000000000 \<le> amount t then [financialFinding t] else [])"
  "warnings (financialRisks t a) =
     warnings a @ (if 1000000000 \<le> amount t \<and> amount t < 2000000000 then [financialWarning t] else [])"
  "recommendations (financialRisks t a) =
     recommendations a @ (if 2000000000 \<le> amount t then [controlRecommendation] else [])"
  by (simp_all add: financialRisks_def)

lemma deadlineRisks_sel [simp]:
  "riskScore (deadlineRisks rt t a) = riskScore a + (if deadlineTrigger rt t then 15 else 0)"
  "risks (deadlineRisks rt t a) = risks a"
  "warnings (deadlineRisks rt t a) =
     warnings a @ (if deadlineTrigger rt t then [deadlineWarning (daysToDeadline rt t)] else [])"
  "recommendations (deadlineRisks rt t a) = recommendations a"
  by (simp_all add: deadlineRisks_def deadlineTrigger_def)

lemma timelineRisks_sel [simp]:
  "riskScore (timelineRisks t a) = riskScore a + (if timelineTrigger t then 20 else 0)"
  "risks (timelineRisks t a) = risks a @ (if timelineTrigger t then [timelineFinding t] else [])"
  "warnings (timelineRisks t a) = warnings a"
  "recommendations (timelineRisks t a) = recommendations a"
  by (simp_all add: timelineRisks_def timelineTrigger_def)

lemma combinedRisks_sel [simp]:
  "riskScore (combinedRisks rt t a) =
     riskScore a + (if seasonalTrigger rt t \<and> 1000000000 \<le> amount t then 20 else 0)"
  "risks (combinedRisks rt t a) =
     risks a @ (if seasonalTrigger rt t \<and> 1000000000 \<le> amount t then [combinedFinding t] else [])"
  "warnings (combinedRisks rt t a) = warnings a"
  "recommendations (combinedRisks rt t a) =
     recommendations a @
     (if seasonalTrigger rt t \<and> 1000000000 \<le> amount t then [guaranteeRecommendation] else [])"
  by (simp_all add: combinedRisks_def seasonalTrigger_def)

lemma medicalRisks_sel [simp]:
  "riskScore (medicalRisks t a) = riskScore a"
  "risks (medicalRisks t a) = risks a"
  "warnings (medicalRisks t a) =
     warnings a @ (if category t = lit ''medical'' \<and> 500000000 \<le> amount t then [categoryWarning] else [])"
  "recommendations (medicalRisks t a) =
     recommendations a @
     (if category t = lit ''medical'' \<and> 500000000 \<le> amount t then [currencyRecommendation] else [])"
  by (simp_all add: medicalRisks_def)

lemma itRisks_sel [simp]:
  "riskScore (itRisks t a) = riskScore a"
  "risks (itRisks t a) = risks a"
  "warnings (itRisks t a) = warnings a"
  "recommendations (itRisks t a) =
     recommendations a @ (if category t = lit ''it'' then [supportRecommendation] else [])"
  by (simp_all add: itRisks_def)

lemma rawAnalysis_score:
  "riskScore (rawAnalysis rt t) =
     (if seasonalTrigger rt t then 35 else 0) +
     (if 2000000000 \<le> amount t then 25 else if 1000000000 \<le> amount t then 15 else 0) +
     (if deadlineTrigger rt t then 15 else 0) +
     (if timelineTrigger t then 20 else 0) +
     (if seasonalTrigger rt t \<and> 1000000000 \<le> amount t then 20 else 0)"
  by (simp add: rawAnalysis_def initialLocals_def)

lemma rawAnalysis_risks:
  "risks (rawAnalysis rt t) =
     (if seasonalTrigger rt t then [seasonalFinding rt t] else []) @
     (if 2000000000 \<le> amount t then [financialFinding t] else []) @
     (if timelineTrigger t then [timelineFinding t] else []) @
     (if seasonalTrigger rt t \<and> 1000000000 \<le> amount t then [combinedFinding t] else [])"
  by (simp add: rawAnalysis_def initialLocals_def)

lemma rawAnalysis_warnings:
  "warnings (rawAnalysis rt t) =
     (if 1000000000 \<le> amount t \<and> amount t < 2000000000 then [financialWarning t] else []) @
     (if deadlineTrigger rt t then [deadlineWarning (daysToDeadline rt t)] else []) @
     (if category t = lit ''medical'' \<and> 500000000 \<le> amount t then [categoryWarning] else [])"
  by (simp add: rawAnalysis_def initialLocals_def)

lemma rawAnalysis_recommendations:
  "recommendations (rawAnalysis rt t) =
     (if seasonalTrigger rt t then [timingRecommendation] else []) @
     (if 2000000000 \<le> amount t then [controlRecommendation] else []) @
     (if seasonalTrigger rt t \<and> 1000000000 \<le> amount t then [guaranteeRecommendation] else []) @
     (if category t = lit ''medical'' \<and> 500000000 \<le> amount t then [currencyRecommendation] else []) @
     (if category t = lit ''it'' then [supportRecommendation] else [])"
  by (simp add: rawAnalysis_def initialLocals_def)

lemma analyzeTenderRisks_sel:
  "riskScore (analyzeTenderRisks rt t) = min (riskScore (rawAnalysis rt t)) 100"
  "risks (analyzeTenderRisks rt t) = risks (rawAnalysis rt t)"
  "warnings (analyzeTenderRisks rt t) = warnings (rawAnalysis rt t)"
  "recommendations (analyzeTenderRisks rt t) = recommendations (rawAnalysis rt t)"
  "riskLevel (analyzeTenderRisks rt t) = levelOfScore (min (riskScore (rawAnalysis rt t)) 100)"
  "summary (analyzeTenderRisks rt t) =
     generateSummary t (min (riskScore (rawAnalysis rt t)) 100)
       (levelOfScore (min (riskScore (rawAnalysis rt t)) 100))
       (risks (rawAnalysis rt t)) (warnings (rawAnalysis rt t))"
  by (simp_all add: analyzeTenderRisks_def Let_def)

section \<open>Facts about the concrete inputs\<close>

lemma example_months:
  "startMonth exampleRuntime constructionTender = 0"
  "endMonth exampleRuntime constructionTender = 2"
proof -
  have "(1736899200000 + 18000000) div msPerDay = 20103"
    and "(1740787200000 + 18000000) div msPerDay = 20148"
    by (simp_all add: msPerDay_def)
  moreover have "monthFromDay 20103 = 0" and "monthFromDay 20148 = 2"
    unfolding monthFromDay_def Let_def by simp_all
  ultimately show "startMonth exampleRuntime constructionTender = 0"
    and "endMonth exampleRuntime constructionTender = 2"
    by (simp_all add: startMonth_def endMonth_def getMonth_def exampleRuntime_def
        constructionTender_def)
qed

lemma winter_month_0: "isWinterExecution rt t" if "startMonth rt t = 0"
  using that by (simp add: isWinterExecution_def winterMonths_def)

lemma example_seasonal: "seasonalTrigger exampleRuntime constructionTender"
  using winter_month_0 [OF example_months(1)]
  by (simp add: seasonalTrigger_def winterRiskCategories_def constructionTender_def)

lemma example_timeline: "timelineTrigger constructionTender"
  unfolding timelineTrigger_def monthsForExecution_def expectedMonths_def
    amountInBillions_def executionDays_def mathCeil_days
  by (simp add: constructionTender_def msPerDay_def)

lemma example_deadline: "deadlineTrigger exampleRuntime constructionTender"
  unfolding deadlineTrigger_def daysToDeadline_def mathCeil_days
  by (simp add: constructionTender_def exampleRuntime_def msPerDay_def)

lemma example_amount: "amount constructionTender = 2500000000"
  by (simp add: constructionTender_def)

section \<open>The end-to-end construction scenario\<close>

text \<open>
  C1, as the engine computes it. For a construction tender of 2,500,000,000 whose execution
  runs from 15 January to 1 March (45 days, 46 in a leap year) and whose deadline is five
  days after the clock reading, rule 4 fires as well: 1.5 months of execution are fewer than
  0.7 * 7.5 expected ones. The risks are the seasonal, financial, timeline and combined
  findings, the warnings hold the deadline warning, the raw sum is 35 + 25 + 15 + 20 + 20
  and the score is the clamped 100, with level high.
\<close>

theorem scenario_assessment:
  assumes "category t = lit ''construction''" and "amount t = 2500000000"
    and "startMonth rt t = 0" and "endMonth rt t = 2"
    and "executionEnd t - executionStart t = 45 * msPerDay
         \<or> executionEnd t - executionStart t = 46 * msPerDay"
    and "deadline t = clock rt + 5 * msPerDay"
  shows "map finding.type (risks (analyzeTenderRisks rt t)) =
           [lit ''seasonal'', lit ''financial'', lit ''timeline'', lit ''combined''] \<and>
         map finding.type (warnings (analyzeTenderRisks rt t)) = [lit ''deadline''] \<and>
         riskScore (rawAnalysis rt t) = 35 + 25 + 15 + 20 + 20 \<and>
         riskScore (analyzeTenderRisks rt t) = 100 \<and>
         riskLevel (analyzeTenderRisks rt t) = lit ''high''"
proof -
  have s: "seasonalTrigger rt t"
    using assms(1,3) by (simp add: seasonalTrigger_def winter_month_0 winterRiskCategories_def)
  have "daysToDeadline rt t = 5"
    unfolding daysToDeadline_def mathCeil_days using assms(6) by (simp add: msPerDay_def)
  then have d: "deadlineTrigger rt t"
    by (simp add: deadlineTrigger_def)
  have "executionDays t = 45 \<or> executionDays t = 46"
    unfolding executionDays_def mathCeil_days using assms(5) by (auto simp add: msPerDay_def)
  then have l: "timelineTrigger t"
    using assms(1,2)
    by (auto simp add: timelineTrigger_def monthsForExecution_def expectedMonths_def
        amountInBillions_def)
  show ?thesis
    using s d l assms(1,2)
    by (simp add: analyzeTenderRisks_sel rawAnalysis_score rawAnalysis_risks rawAnalysis_warnings
        levelOfScore_def seasonalFinding_def financialFinding_def timelineFinding_def
        combinedFinding_def deadlineWarning_def)
qed

text \<open>The scenario at the concrete runtime and tender: every hypothesis holds there.\<close>

theorem scenario_assessment_witness:
  "category constructionTender = lit ''construction'' \<and>
   amount constructionTender = 2500000000 \<and>
   startMonth exampleRuntime constructionTender = 0 \<and>
   endMonth exampleRuntime constructionTender = 2 \<and>
   executionEnd constructionTender - executionStart constructionTender = 45 * msPerDay \<and>
   deadline constructionTender = clock exampleRuntime + 5 * msPerDay \<and>
   map finding.type (risks (analyzeTenderRisks exampleRuntime constructionTender)) =
     [lit ''seasonal'', lit ''financial'', lit ''timeline'', lit ''combined''] \<and>
   riskScore (analyzeTenderRisks exampleRuntime constructionTender) = 100 \<and>
   riskLevel (analyzeTenderRisks exampleRuntime constructionTender) = lit ''high''"
  using scenario_assessment [of constructionTender exampleRuntime] example_months
  by (simp add: constructionTender_def exampleRuntime_def msPerDay_def)

text \<open>C1 as the specification states it expects a score of 35 + 25 + 15 + 20 = 95 from
  rules 1, 2, 3 and 5. On the concrete scenario the score is 100 and the timeline finding of
  rule 4 is among the risks.\<close>

theorem scenario_score_counterexample:
  "category constructionTender = lit ''construction'' \<and>
   amount constructionTender = 2500000000 \<and>
   startMonth exampleRuntime constructionTender = 0 \<and>
   endMonth exampleRuntime constructionTender = 2 \<and>
   deadline constructionTender = clock exampleRuntime + 5 * msPerDay \<and>
   riskScore (analyzeTenderRisks exampleRuntime constructionTender) \<noteq> 35 + 25 + 15 + 20 \<and>
   riskScore (analyzeTenderRisks exampleRuntime constructionTender) = 100 \<and>
   lit ''timeline'' \<in>
     set (map finding.type (risks (analyzeTenderRisks exampleRuntime constructionTender)))"
  using example_seasonal example_timeline example_deadline example_amount example_months
  by (simp add: analyzeTenderRisks_sel rawAnalysis_score rawAnalysis_risks timelineFinding_def)
     (simp add: constructionTender_def exampleRuntime_def msPerDay_def)

section \<open>Bounds of the score and the level cut points\<close>

text \<open>
  C3. For every runtime and tender the returned score lies between 0 and 100. When rules 1,
  2 (the branch from 2 billion), 3 and 4 fire together, rule 5 fires with them, the raw sum
  is 35 + 25 + 15 + 20 + 20 = 115, the returned score is exactly 100 and the level is high.
\<close>

theorem riskScore_bounded:
  "0 \<le> riskScore (analyzeTenderRisks rt t) \<and> riskScore (analyzeTenderRisks rt t) \<le> 100 \<and>
   (seasonalTrigger rt t \<and> 2000000000 \<le> amount t \<and> deadlineTrigger rt t \<and> timelineTrigger t
      \<longrightarrow> riskScore (rawAnalysis rt t) = 35 + 25 + 15 + 20 + 20 \<and>
          riskScore (analyzeTenderRisks rt t) = 100 \<and>
          riskLevel (analyzeTenderRisks rt t) = lit ''high'')"
  by (simp add: analyzeTenderRisks_sel rawAnalysis_score levelOfScore_def)

text \<open>The worst case is met by the concrete construction tender.\<close>

theorem riskScore_bounded_witness:
  "seasonalTrigger exampleRuntime constructionTender \<and>
   2000000000 \<le> amount constructionTender \<and>
   deadlineTrigger exampleRuntime constructionTender \<and>
   timelineTrigger constructionTender \<and>
   riskScore (rawAnalysis exampleRuntime constructionTender) = 115 \<and>
   riskScore (analyzeTenderRisks exampleRuntime constructionTender) = 100 \<and>
   riskLevel (analyzeTenderRisks exampleRuntime constructionTender) = lit ''high''"
  using riskScore_bounded [of exampleRuntime constructionTender]
    example_seasonal example_timeline example_deadline example_amount
  by simp

lemma riskScore_values:
  "riskScore (analyzeTenderRisks rt t) \<in>
     {0, 15, 20, 25, 30, 35, 40, 45, 50, 55, 60, 70, 75, 80, 85, 90, 95, 100}"
  by (simp add: analyzeTenderRisks_sel rawAnalysis_score)

text \<open>
  C4. The level is read off the clamped score with the cut points 30 and 60: 29 is low, 30
  and 59 are medium, 60 is high; for every tender the level is low exactly when the score is
  below 30, medium exactly from 30 to 59 and high exactly from 60.
\<close>

theorem riskLevel_boundaries:
  "levelOfScore 29 = lit ''low'' \<and> levelOfScore 30 = lit ''medium'' \<and>
   levelOfScore 59 = lit ''medium'' \<and> levelOfScore 60 = lit ''high'' \<and>
   riskLevel (analyzeTenderRisks rt t) = levelOfScore (riskScore (analyzeTenderRisks rt t)) \<and>
   (riskLevel (analyzeTenderRisks rt t) = lit ''low'') =
     (riskScore (analyzeTenderRisks rt t) < 30) \<and>
   (riskLevel (analyzeTenderRisks rt t) = lit ''medium'') =
     (30 \<le> riskScore (analyzeTenderRisks rt t) \<and> riskScore (analyzeTenderRisks rt t) < 60) \<and>
   (riskLevel (analyzeTenderRisks rt t) = lit ''high'') =
     (60 \<le> riskScore (analyzeTenderRisks rt t))"
  by (auto simp add: analyzeTenderRisks_sel levelOfScore_def)

section \<open>The financial and the deadline rule\<close>

text \<open>
  C5. The two branches of rule 2 exclude one another. A financial finding among the risks
  and the control recommendation appear exactly from 2 billion, a financial warning exactly
  from 1 billion to below 2 billion, never both; the rule adds 25, 15 or nothing. At an
  amount of 1.5 billion the rule adds 15 and the medium financial warning and nothing else.
\<close>

theorem financial_branches_exclusive:
  "financialRisks t a =
     (if 2000000000 \<le> amount t then
        a\<lparr>riskScore := riskScore a + 25, risks := risks a @ [financialFinding t],
          recommendations := recommendations a @ [controlRecommendation]\<rparr>
      else if 1000000000 \<le> amount t then
        a\<lparr>riskScore := riskScore a + 15, warnings := warnings a @ [financialWarning t]\<rparr>
      else a) \<and>
   finding.type (financialFinding t) = lit ''financial'' \<and>
   severity (financialFinding t) = lit ''high'' \<and>
   recommendation.type controlRecommendation = lit ''control'' \<and>
   finding.type (financialWarning t) = lit ''financial'' \<and>
   severity (financialWarning t) = lit ''medium'' \<and>
   (lit ''financial'' \<in> set (map finding.type (risks (analyzeTenderRisks rt t)))) =
     (2000000000 \<le> amount t) \<and>
   (lit ''control'' \<in> set (map recommendation.type (recommendations (analyzeTenderRisks rt t)))) =
     (2000000000 \<le> amount t) \<and>
   (lit ''financial'' \<in> set (map finding.type (warnings (analyzeTenderRisks rt t)))) =
     (1000000000 \<le> amount t \<and> amount t < 2000000000) \<and>
   \<not> (lit ''financial'' \<in> set (map finding.type (risks (analyzeTenderRisks rt t))) \<and>
      lit ''financial'' \<in> set (map finding.type (warnings (analyzeTenderRisks rt t)))) \<and>
   (amount t = 1500000000 \<longrightarrow>
      financialRisks t a =
        a\<lparr>riskScore := riskScore a + 15, warnings := warnings a @ [financialWarning t]\<rparr> \<and>
      lit ''financial'' \<notin> set (map finding.type (risks (analyzeTenderRisks rt t))) \<and>
      lit ''control'' \<notin>
        set (map recommendation.type (recommendations (analyzeTenderRisks rt t))) \<and>
      lit ''financial'' \<in> set (map finding.type (warnings (analyzeTenderRisks rt t))))"
proof -
  have d: "financialRisks t a =
     (if 2000000000 \<le> amount t then
        a\<lparr>riskScore := riskScore a + 25, risks := risks a @ [financialFinding t],
          recommendations := recommendations a @ [controlRecommendation]\<rparr>
      else if 1000000000 \<le> amount t then
        a\<lparr>riskScore := riskScore a + 15, warnings := warnings a @ [financialWarning t]\<rparr>
      else a)"
    by (simp add: financialRisks_def)
  have r: "(lit ''financial'' \<in> set (map finding.type (risks (analyzeTenderRisks rt t)))) =
     (2000000000 \<le> amount t)"
    by (auto simp add: analyzeTenderRisks_sel rawAnalysis_risks seasonalFinding_def
        financialFinding_def timelineFinding_def combinedFinding_def)
  have c: "(lit ''control'' \<in>
      set (map recommendation.type (recommendations (analyzeTenderRisks rt t)))) =
     (2000000000 \<le> amount t)"
    by (auto simp add: analyzeTenderRisks_sel rawAnalysis_recommendations
        timingRecommendation_def controlRecommendation_def guaranteeRecommendation_def
        currencyRecommendation_def supportRecommendation_def)
  have w: "(lit ''financial'' \<in> set (map finding.type (warnings (analyzeTenderRisks rt t)))) =
     (1000000000 \<le> amount t \<and> amount t < 2000000000)"
    by (auto simp add: analyzeTenderRisks_sel rawAnalysis_warnings financialWarning_def
        deadlineWarning_def categoryWarning_def)
  have f: "amount t = 1500000000 \<longrightarrow> financialRisks t a =
        a\<lparr>riskScore := riskScore a + 15, warnings := warnings a @ [financialWarning t]\<rparr>"
    by (simp add: financialRisks_def)
  show ?thesis
    unfolding r c w using d f
    by (simp add: financialWarning_def financialFinding_def controlRecommendation_def)
qed

text \<open>The supply tender of 1.5 billion receives the warning and 15 points only.\<close>

theorem financial_branches_exclusive_witness:
  "amount supplyTender = 1500000000 \<and>
   financialRisks supplyTender initialLocals =
     initialLocals\<lparr>riskScore := riskScore initialLocals + 15,
       warnings := warnings initialLocals @ [financialWarning supplyTender]\<rparr> \<and>
   lit ''financial'' \<notin>
     set (map finding.type (risks (analyzeTenderRisks exampleRuntime supplyTender))) \<and>
   lit ''financial'' \<in>
     set (map finding.type (warnings (analyzeTenderRisks exampleRuntime supplyTender)))"
proof -
  have "amount supplyTender = 1500000000"
    by (simp add: supplyTender_def)
  with financial_branches_exclusive [of supplyTender initialLocals exampleRuntime]
  show ?thesis
    by blast
qed

lemma daysToDeadline_window:
  "(0 < daysToDeadline rt t \<and> daysToDeadline rt t < 10) =
   (clock rt < deadline t \<and> deadline t \<le> clock rt + 9 * msPerDay)"
proof -
  define x where "x = deadline t - clock rt"
  have d: "daysToDeadline rt t = \<lceil>rat_of_int x / 86400000\<rceil>"
    by (simp add: daysToDeadline_def mathCeil_def msPerDay_def x_def)
  have "0 < daysToDeadline rt t \<longleftrightarrow> 0 < x"
    unfolding d by (simp add: less_ceiling_iff)
  moreover have "daysToDeadline rt t \<le> 9 \<longleftrightarrow> rat_of_int x \<le> rat_of_int 777600000"
    unfolding d by (simp add: ceiling_le_iff divide_le_eq)
  then have "daysToDeadline rt t < 10 \<longleftrightarrow> x \<le> 777600000"
    unfolding of_int_le_iff by linarith
  ultimately show ?thesis
    by (auto simp add: x_def msPerDay_def)
qed

lemma digits_small: "n < 10 \<Longrightarrow> digits n = [48 + n]"
  by (simp add: digits.simps)

lemma example_days:
  "daysToDeadline exampleRuntime constructionTender = 5"
  "daysToDeadline laterRuntime constructionTender = - 5"
  unfolding daysToDeadline_def mathCeil_days
  by (simp_all add: constructionTender_def exampleRuntime_def laterRuntime_def msPerDay_def)

text \<open>
  C6. \<open>daysToDeadline\<close> is the ceiling of the time left in days. The deadline rule fires
  exactly when it is strictly between 0 and 10, that is when the deadline lies after the
  clock reading and at most nine days after it. It then adds 15 and pushes one warning, which
  is among the warnings of the assessment: type deadline, severity medium, the title of line
  124 and the description of line 125, written out here in code units, with the day count,
  a single digit, between the text before and the text after it. At zero or a negative count
  the rule changes nothing.
\<close>

theorem deadline_rule:
  "daysToDeadline rt t = \<lceil>rat_of_int (deadline t - clock rt) / 86400000\<rceil> \<and>
   deadlineRisks rt t a =
     (if 0 < daysToDeadline rt t \<and> daysToDeadline rt t < 10
      then a\<lparr>riskScore := riskScore a + 15,
             warnings := warnings a @ [deadlineWarning (daysToDeadline rt t)]\<rparr>
      else a) \<and>
   finding.type (deadlineWarning (daysToDeadline rt t)) = lit ''deadline'' \<and>
   severity (deadlineWarning (daysToDeadline rt t)) = lit ''medium'' \<and>
   (0 < daysToDeadline rt t \<and> daysToDeadline rt t < 10 \<longrightarrow>
      deadlineWarning (daysToDeadline rt t) =
        \<lparr>finding.type = lit ''deadline'', severity = lit ''medium'',
          title =
           [1057, 1078, 1072, 1090, 1099, 1077, 32, 1089, 1088, 1086, 1082, 1080, 32,
            1087, 1086, 1076, 1072, 1095, 1080, 32, 1079, 1072, 1103, 1074, 1086, 1082],
          description =
           [1044, 1086, 32, 1086, 1082, 1086, 1085, 1095, 1072, 1085, 1080, 1103, 32, 1087,
            1088, 1080, 1077, 1084, 1072, 32, 1079, 1072, 1103, 1074, 1086, 1082, 32, 1086, 1089,
            1090, 1072, 1083, 1086, 1089, 1100, 32] @
           [48 + nat (daysToDeadline rt t)] @
           [32, 1076, 1085, 1077, 1081, 46, 32, 1050, 1086, 1088, 1086, 1090, 1082, 1080, 1077,
            32, 1089, 1088, 1086, 1082, 1080, 32, 1084, 1086, 1075, 1091, 1090, 32, 1086, 1075,
            1088, 1072, 1085, 1080, 1095, 1080, 1090, 1100, 32, 1082, 1086, 1085, 1082, 1091,
            1088, 1077, 1085, 1094, 1080, 1102, 46]\<rparr> \<and>
      deadlineWarning (daysToDeadline rt t) \<in> set (warnings (analyzeTenderRisks rt t))) \<and>
   (daysToDeadline rt t \<le> 0 \<longrightarrow> deadlineRisks rt t a = a) \<and>
   (lit ''deadline'' \<in> set (map finding.type (warnings (analyzeTenderRisks rt t)))) =
     (0 < daysToDeadline rt t \<and> daysToDeadline rt t < 10) \<and>
   (0 < daysToDeadline rt t \<and> daysToDeadline rt t < 10) =
     (clock rt < deadline t \<and> deadline t \<le> clock rt + 9 * msPerDay)"
proof (intro conjI)
  show "daysToDeadline rt t = \<lceil>rat_of_int (deadline t - clock rt) / 86400000\<rceil>"
    by (simp add: daysToDeadline_def mathCeil_def msPerDay_def)
  show "deadlineRisks rt t a =
     (if 0 < daysToDeadline rt t \<and> daysToDeadline rt t < 10
      then a\<lparr>riskScore := riskScore a + 15,
             warnings := warnings a @ [deadlineWarning (daysToDeadline rt t)]\<rparr>
      else a)"
    by (simp add: deadlineRisks_def)
  show "finding.type (deadlineWarning (daysToDeadline rt t)) = lit ''deadline''"
    and "severity (deadlineWarning (daysToDeadline rt t)) = lit ''medium''"
    by (simp_all add: deadlineWarning_def)
  show "0 < daysToDeadline rt t \<and> daysToDeadline rt t < 10 \<longrightarrow>
      deadlineWarning (daysToDeadline rt t) =
        \<lparr>finding.type = lit ''deadline'', severity = lit ''medium'',
          title =
           [1057, 1078, 1072, 1090, 1099, 1077, 32, 1089, 1088, 1086, 1082, 1080, 32,
            1087, 1086, 1076, 1072, 1095, 1080, 32, 1079, 1072, 1103, 1074, 1086, 1082],
          description =
           [1044, 1086, 32, 1086, 1082, 1086, 1085, 1095, 1072, 1085, 1080, 1103, 32, 1087,
            1088, 1080, 1077, 1084, 1072, 32, 1079, 1072, 1103, 1074, 1086, 1082, 32, 1086, 1089,
            1090, 1072, 1083, 1086, 1089, 1100, 32] @
           [48 + nat (daysToDeadline rt t)] @
           [32, 1076, 1085, 1077, 1081, 46, 32, 1050, 1086, 1088, 1086, 1090, 1082, 1080, 1077,
            32, 1089, 1088, 1086, 1082, 1080, 32, 1084, 1086, 1075, 1091, 1090, 32, 1086, 1075,
            1088, 1072, 1085, 1080, 1095, 1080, 1090, 1100, 32, 1082, 1086, 1085, 1082, 1091,
            1088, 1077, 1085, 1094, 1080, 1102, 46]\<rparr> \<and>
      deadlineWarning (daysToDeadline rt t) \<in> set (warnings (analyzeTenderRisks rt t))"
  proof
    assume d: "0 < daysToDeadline rt t \<and> daysToDeadline rt t < 10"
    then have "nat (daysToDeadline rt t) < 10" and "\<not> daysToDeadline rt t < 0"
      by linarith+
    then have "deadlineWarning (daysToDeadline rt t) =
        \<lparr>finding.type = lit ''deadline'', severity = lit ''medium'',
          title =
           [1057, 1078, 1072, 1090, 1099, 1077, 32, 1089, 1088, 1086, 1082, 1080, 32,
            1087, 1086, 1076, 1072, 1095, 1080, 32, 1079, 1072, 1103, 1074, 1086, 1082],
          description =
           [1044, 1086, 32, 1086, 1082, 1086, 1085, 1095, 1072, 1085, 1080, 1103, 32, 1087,
            1088, 1080, 1077, 1084, 1072, 32, 1079, 1072, 1103, 1074, 1086, 1082, 32, 1086, 1089,
            1090, 1072, 1083, 1086, 1089, 1100, 32] @
           [48 + nat (daysToDeadline rt t)] @
           [32, 1076, 1085, 1077, 1081, 46, 32, 1050, 1086, 1088, 1086, 1090, 1082, 1080, 1077,
            32, 1089, 1088, 1086, 1082, 1080, 32, 1084, 1086, 1075, 1091, 1090, 32, 1086, 1075,
            1088, 1072, 1085, 1080, 1095, 1080, 1090, 1100, 32, 1082, 1086, 1085, 1082, 1091,
            1088, 1077, 1085, 1094, 1080, 1102, 46]\<rparr>"
      by (simp add: deadlineWarning_def deadlineTitle_def deadlineDescription_def
          numberToString_def digits_small)
    moreover from d
    have "deadlineWarning (daysToDeadline rt t) \<in> set (warnings (analyzeTenderRisks rt t))"
      by (simp add: analyzeTenderRisks_sel rawAnalysis_warnings deadlineTrigger_def)
    ultimately show "deadlineWarning (daysToDeadline rt t) =
        \<lparr>finding.type = lit ''deadline'', severity = lit ''medium'',
          title =
           [1057, 1078, 1072, 1090, 1099, 1077, 32, 1089, 1088, 1086, 1082, 1080, 32,
            1087, 1086, 1076, 1072, 1095, 1080, 32, 1079, 1072, 1103, 1074, 1086, 1082],
          description =
           [1044, 1086, 32, 1086, 1082, 1086, 1085, 1095, 1072, 1085, 1080, 1103, 32, 1087,
            1088, 1080, 1077, 1084, 1072, 32, 1079, 1072, 1103, 1074, 1086, 1082, 32, 1086, 1089,
            1090, 1072, 1083, 1086, 1089, 1100, 32] @
           [48 + nat (daysToDeadline rt t)] @
           [32, 1076, 1085, 1077, 1081, 46, 32, 1050, 1086, 1088, 1086, 1090, 1082, 1080, 1077,
            32, 1089, 1088, 1086, 1082, 1080, 32, 1084, 1086, 1075, 1091, 1090, 32, 1086, 1075,
            1088, 1072, 1085, 1080, 1095, 1080, 1090, 1100, 32, 1082, 1086, 1085, 1082, 1091,
            1088, 1077, 1085, 1094, 1080, 1102, 46]\<rparr> \<and>
      deadlineWarning (daysToDeadline rt t) \<in> set (warnings (analyzeTenderRisks rt t))"
      by (rule conjI)
  qed
  show "daysToDeadline rt t \<le> 0 \<longrightarrow> deadlineRisks rt t a = a"
    by (simp add: deadlineRisks_def)
  show "(lit ''deadline'' \<in> set (map finding.type (warnings (analyzeTenderRisks rt t)))) =
     (0 < daysToDeadline rt t \<and> daysToDeadline rt t < 10)"
    by (auto simp add: analyzeTenderRisks_sel rawAnalysis_warnings deadlineTrigger_def
        financialWarning_def deadlineWarning_def categoryWarning_def)
  show "(0 < daysToDeadline rt t \<and> daysToDeadline rt t < 10) =
     (clock rt < deadline t \<and> deadline t \<le> clock rt + 9 * msPerDay)"
    by (rule daysToDeadline_window)
qed

text \<open>Five days before the deadline the warning of the assessment carries the digit 5 (code
  unit 53) in its description; five days after it the rule is silent.\<close>

theorem deadline_rule_witness:
  "0 < daysToDeadline exampleRuntime constructionTender \<and>
   daysToDeadline exampleRuntime constructionTender < 10 \<and>
   \<lparr>finding.type = lit ''deadline'', severity = lit ''medium'',
          title =
           [1057, 1078, 1072, 1090, 1099, 1077, 32, 1089, 1088, 1086, 1082, 1080, 32,
            1087, 1086, 1076, 1072, 1095, 1080, 32, 1079, 1072, 1103, 1074, 1086, 1082],
          description =
           [1044, 1086, 32, 1086, 1082, 1086, 1085, 1095, 1072, 1085, 1080, 1103, 32, 1087,
            1088, 1080, 1077, 1084, 1072, 32, 1079, 1072, 1103, 1074, 1086, 1082, 32, 1086, 1089,
            1090, 1072, 1083, 1086, 1089, 1100, 32] @
           [53] @
           [32, 1076, 1085, 1077, 1081, 46, 32, 1050, 1086, 1088, 1086, 1090, 1082, 1080, 1077,
            32, 1089, 1088, 1086, 1082, 1080, 32, 1084, 1086, 1075, 1091, 1090, 32, 1086, 1075,
            1088, 1072, 1085, 1080, 1095, 1080, 1090, 1100, 32, 1082, 1086, 1085, 1082, 1091,
            1088, 1077, 1085, 1094, 1080, 1102, 46]\<rparr>
     \<in> set (warnings (analyzeTenderRisks exampleRuntime constructionTender)) \<and>
   daysToDeadline laterRuntime constructionTender \<le> 0 \<and>
   deadlineRisks laterRuntime constructionTender initialLocals = initialLocals"
proof -
  note d = example_days
  have h: "0 < daysToDeadline exampleRuntime constructionTender \<and>
      daysToDeadline exampleRuntime constructionTender < 10"
    by (simp add: d)
  have l: "daysToDeadline laterRuntime constructionTender \<le> 0"
    by (simp add: d)
  from deadline_rule [of exampleRuntime constructionTender] h
  have "deadlineWarning (daysToDeadline exampleRuntime constructionTender) =
        \<lparr>finding.type = lit ''deadline'', severity = lit ''medium'',
          title =
           [1057, 1078, 1072, 1090, 1099, 1077, 32, 1089, 1088, 1086, 1082, 1080, 32,
            1087, 1086, 1076, 1072, 1095, 1080, 32, 1079, 1072, 1103, 1074, 1086, 1082],
          description =
           [1044, 1086, 32, 1086, 1082, 1086, 1085, 1095, 1072, 1085, 1080, 1103, 32, 1087,
            1088, 1080, 1077, 1084, 1072, 32, 1079, 1072, 1103, 1074, 1086, 1082, 32, 1086, 1089,
            1090, 1072, 1083, 1086, 1089, 1100, 32] @
           [48 + nat (daysToDeadline exampleRuntime constructionTender)] @
           [32, 1076, 1085, 1077, 1081, 46, 32, 1050, 1086, 1088, 1086, 1090, 1082, 1080, 1077,
            32, 1089, 1088, 1086, 1082, 1080, 32, 1084, 1086, 1075, 1091, 1090, 32, 1086, 1075,
            1088, 1072, 1085, 1080, 1095, 1080, 1090, 1100, 32, 1082, 1086, 1085, 1082, 1091,
            1088, 1077, 1085, 1094, 1080, 1102, 46]\<rparr>"
    and "deadlineWarning (daysToDeadline exampleRuntime constructionTender)
      \<in> set (warnings (analyzeTenderRisks exampleRuntime constructionTender))"
    by blast+
  then have "\<lparr>finding.type = lit ''deadline'', severity = lit ''medium'',
          title =
           [1057, 1078, 1072, 1090, 1099, 1077, 32, 1089, 1088, 1086, 1082, 1080, 32,
            1087, 1086, 1076, 1072, 1095, 1080, 32, 1079, 1072, 1103, 1074, 1086, 1082],
          description =
           [1044, 1086, 32, 1086, 1082, 1086, 1085, 1095, 1072, 1085, 1080, 1103, 32, 1087,
            1088, 1080, 1077, 1084, 1072, 32, 1079, 1072, 1103, 1074, 1086, 1082, 32, 1086, 1089,
            1090, 1072, 1083, 1086, 1089, 1100, 32] @
           [53] @
           [32, 1076, 1085, 1077, 1081, 46, 32, 1050, 1086, 1088, 1086, 1090, 1082, 1080, 1077,
            32, 1089, 1088, 1086, 1082, 1080, 32, 1084, 1086, 1075, 1091, 1090, 32, 1086, 1075,
            1088, 1072, 1085, 1080, 1095, 1080, 1090, 1100, 32, 1082, 1086, 1085, 1082, 1091,
            1088, 1077, 1085, 1094, 1080, 1102, 46]\<rparr>
     \<in> set (warnings (analyzeTenderRisks exampleRuntime constructionTender))"
    by (simp add: d)
  moreover from deadline_rule [of laterRuntime constructionTender initialLocals] l
  have "deadlineRisks laterRuntime constructionTender initialLocals = initialLocals"
    by blast
  ultimately show ?thesis
    using h l by blast
qed


section \<open>Severities of risks and warnings\<close>

lemma example_category: "category constructionTender = lit ''construction''"
  by (simp add: constructionTender_def)

text \<open>
  C9. In every assessment each entry of the risks has severity high or critical, and is
  critical exactly when it is the combined finding; each entry of the warnings has severity
  medium; no severity occurs in both sequences.
\<close>

theorem severities_disjoint:
  "(\<forall>f \<in> set (risks (analyzeTenderRisks rt t)).
      (severity f = lit ''high'' \<or> severity f = lit ''critical'') \<and>
      (severity f = lit ''critical'') = (finding.type f = lit ''combined'')) \<and>
   (\<forall>w \<in> set (warnings (analyzeTenderRisks rt t)). severity w = lit ''medium'') \<and>
   set (map severity (risks (analyzeTenderRisks rt t))) \<inter>
     set (map severity (warnings (analyzeTenderRisks rt t))) = {}"
proof -
  have r: "(severity f = lit ''high'' \<or> severity f = lit ''critical'') \<and>
      (severity f = lit ''critical'') = (finding.type f = lit ''combined'')"
    if "f \<in> set (risks (analyzeTenderRisks rt t))" for f
    using that
    by (auto simp add: analyzeTenderRisks_sel rawAnalysis_risks seasonalFinding_def
        financialFinding_def timelineFinding_def combinedFinding_def split: if_splits)
  have w: "severity w = lit ''medium''"
    if "w \<in> set (warnings (analyzeTenderRisks rt t))" for w
    using that
    by (auto simp add: analyzeTenderRisks_sel rawAnalysis_warnings financialWarning_def
        deadlineWarning_def categoryWarning_def split: if_splits)
  have d: "set (map severity (risks (analyzeTenderRisks rt t))) \<inter>
     set (map severity (warnings (analyzeTenderRisks rt t))) = {}"
  proof (rule ccontr)
    assume "set (map severity (risks (analyzeTenderRisks rt t))) \<inter>
      set (map severity (warnings (analyzeTenderRisks rt t))) \<noteq> {}"
    then obtain s where "s \<in> set (map severity (risks (analyzeTenderRisks rt t)))"
      and "s \<in> set (map severity (warnings (analyzeTenderRisks rt t)))"
      by auto
    then obtain f w' where "f \<in> set (risks (analyzeTenderRisks rt t))" and "severity f = s"
      and "w' \<in> set (warnings (analyzeTenderRisks rt t))" and "severity w' = s"
      by auto
    with r [of f] w [of w'] show False
      by auto
  qed
  show ?thesis
  proof (intro conjI ballI)
    fix f assume "f \<in> set (risks (analyzeTenderRisks rt t))"
    from r [OF this] show "severity f = lit ''high'' \<or> severity f = lit ''critical''"
      and "(severity f = lit ''critical'') = (finding.type f = lit ''combined'')"
      by (rule conjunct1, rule conjunct2)
  next
    fix w' assume "w' \<in> set (warnings (analyzeTenderRisks rt t))"
    then show "severity w' = lit ''medium''"
      by (rule w)
  next
    show "set (map severity (risks (analyzeTenderRisks rt t))) \<inter>
      set (map severity (warnings (analyzeTenderRisks rt t))) = {}"
      by (rule d)
  qed
qed

text \<open>On the concrete construction tender the risks are the four findings, the combined one
  critical, and the one warning is medium.\<close>

theorem severities_disjoint_witness:
  "risks (analyzeTenderRisks exampleRuntime constructionTender) =
     [seasonalFinding exampleRuntime constructionTender, financialFinding constructionTender,
      timelineFinding constructionTender, combinedFinding constructionTender] \<and>
   warnings (analyzeTenderRisks exampleRuntime constructionTender) = [deadlineWarning 5] \<and>
   severity (combinedFinding constructionTender) = lit ''critical'' \<and>
   (severity (seasonalFinding exampleRuntime constructionTender) = lit ''high'' \<or>
    severity (seasonalFinding exampleRuntime constructionTender) = lit ''critical'') \<and>
   severity (deadlineWarning 5) = lit ''medium''"
proof -
  have r: "risks (analyzeTenderRisks exampleRuntime constructionTender) =
     [seasonalFinding exampleRuntime constructionTender, financialFinding constructionTender,
      timelineFinding constructionTender, combinedFinding constructionTender]"
    using example_seasonal example_timeline example_amount
    by (simp add: analyzeTenderRisks_sel rawAnalysis_risks)
  have w: "warnings (analyzeTenderRisks exampleRuntime constructionTender) = [deadlineWarning 5]"
    unfolding analyzeTenderRisks_sel rawAnalysis_warnings
    by (simp only: example_deadline example_amount example_days(1) example_category if_True) simp
  note all = severities_disjoint [of exampleRuntime constructionTender, unfolded r w]
  from all have b: "\<forall>f \<in> set [seasonalFinding exampleRuntime constructionTender,
      financialFinding constructionTender, timelineFinding constructionTender,
      combinedFinding constructionTender].
      (severity f = lit ''high'' \<or> severity f = lit ''critical'') \<and>
      (severity f = lit ''critical'') = (finding.type f = lit ''combined'')"
    by (rule conjunct1)
  from b have "(severity (combinedFinding constructionTender) = lit ''high'' \<or>
      severity (combinedFinding constructionTender) = lit ''critical'') \<and>
      (severity (combinedFinding constructionTender) = lit ''critical'') =
      (finding.type (combinedFinding constructionTender) = lit ''combined'')"
    by (rule bspec) simp
  then have c: "severity (combinedFinding constructionTender) = lit ''critical''"
    by (simp add: combinedFinding_def)
  from b have "(severity (seasonalFinding exampleRuntime constructionTender) = lit ''high'' \<or>
      severity (seasonalFinding exampleRuntime constructionTender) = lit ''critical'') \<and>
      (severity (seasonalFinding exampleRuntime constructionTender) = lit ''critical'') =
      (finding.type (seasonalFinding exampleRuntime constructionTender) = lit ''combined'')"
    by (rule bspec) simp
  then have s: "severity (seasonalFinding exampleRuntime constructionTender) = lit ''high'' \<or>
      severity (seasonalFinding exampleRuntime constructionTender) = lit ''critical''"
    by (rule conjunct1)
  from all have "\<forall>w \<in> set [deadlineWarning 5]. severity w = lit ''medium''"
    by (rule conjunct1 [OF conjunct2])
  then have m: "severity (deadlineWarning 5) = lit ''medium''"
    by (rule bspec) simp
  from r w c s m show ?thesis
    by (intro conjI)
qed


section \<open>The medical advisory\<close>

lemma not_construction: "category t \<noteq> lit ''construction'' \<Longrightarrow> \<not> seasonalTrigger rt t \<and> \<not> timelineTrigger t"
  by (simp add: seasonalTrigger_def timelineTrigger_def winterRiskCategories_def)

lemma summaryAttention_neq: "summaryAttention s @ xs \<noteq> summaryNoRisks s"
  by (simp add: summaryAttention_def summaryNoRisks_def)

lemma medical_days: "daysToDeadline exampleRuntime medicalTender = 60"
  unfolding daysToDeadline_def mathCeil_days
  by (simp add: medicalTender_def exampleRuntime_def msPerDay_def)

text \<open>
  C10. For a medical tender of at least 0.5 and less than 1 billion whose day count to the
  deadline is not strictly between 0 and 10, the score is 0 and the level low, while the
  warnings hold exactly the medium category warning and the recommendations the currency
  entry; the summary is the one that asks for attention and lists that warning, not the one
  for a tender without findings.
\<close>

theorem medical_advisory:
  assumes "category t = lit ''medical''"
    and "500000000 \<le> amount t" and "amount t < 1000000000"
    and "\<not> (0 < daysToDeadline rt t \<and> daysToDeadline rt t < 10)"
  shows "riskScore (analyzeTenderRisks rt t) = 0 \<and>
         riskLevel (analyzeTenderRisks rt t) = lit ''low'' \<and>
         risks (analyzeTenderRisks rt t) = [] \<and>
         warnings (analyzeTenderRisks rt t) = [categoryWarning] \<and>
         finding.type categoryWarning = lit ''category'' \<and>
         severity categoryWarning = lit ''medium'' \<and>
         recommendations (analyzeTenderRisks rt t) = [currencyRecommendation] \<and>
         recommendation.type currencyRecommendation = lit ''currency'' \<and>
         summary (analyzeTenderRisks rt t) =
           summaryHeader (lit ''0'') (interpolate (map_of levelText (lit ''low''))) @
           summaryAttention (tender.title t) @
           summaryWarningsHeading (lit ''1'') @ summaryItem categoryTitle \<and>
         summary (analyzeTenderRisks rt t) \<noteq> generateSummary t 0 (lit ''low'') [] []"
proof -
  have c: "category t \<noteq> lit ''construction''" "category t \<noteq> lit ''it''"
    using assms(1) by simp_all
  then have n: "\<not> seasonalTrigger rt t" "\<not> timelineTrigger t"
    using not_construction by blast+
  have d: "\<not> deadlineTrigger rt t"
    using assms(4) by (auto simp add: deadlineTrigger_def)
  have score: "riskScore (rawAnalysis rt t) = 0"
    using n d assms(3) by (simp add: rawAnalysis_score)
  have rs: "risks (rawAnalysis rt t) = []"
    using n assms(3) by (simp add: rawAnalysis_risks)
  have ws: "warnings (rawAnalysis rt t) = [categoryWarning]"
    using d assms(1,2,3) by (simp add: rawAnalysis_warnings)
  have recs: "recommendations (rawAnalysis rt t) = [currencyRecommendation]"
    using n c assms(1,2,3) by (simp add: rawAnalysis_recommendations)
  have lvl: "levelOfScore 0 = lit ''low''"
    by (simp add: levelOfScore_def)
  have one: "numberToString 1 = lit ''1''" and zero: "numberToString 0 = lit ''0''"
    by (simp_all add: numberToString_def digits.simps lit_def)
  have sm: "summary (analyzeTenderRisks rt t) =
      summaryHeader (lit ''0'') (interpolate (map_of levelText (lit ''low''))) @
      summaryAttention (tender.title t) @
      summaryWarningsHeading (lit ''1'') @ summaryItem categoryTitle"
    unfolding analyzeTenderRisks_sel score rs ws
    by (simp add: lvl generateSummary_def one zero categoryWarning_def)
  have "generateSummary t 0 (lit ''low'') [] [] =
      summaryHeader (lit ''0'') (interpolate (map_of levelText (lit ''low''))) @
      summaryNoRisks (tender.title t)"
    by (simp add: generateSummary_def zero)
  with sm have ne: "summary (analyzeTenderRisks rt t) \<noteq> generateSummary t 0 (lit ''low'') [] []"
    using summaryAttention_neq by simp
  show ?thesis
    using score rs ws recs sm ne
    by (simp add: analyzeTenderRisks_sel lvl categoryWarning_def currencyRecommendation_def)
qed

text \<open>The medical tender of 700 million, sixty days before its deadline.\<close>

theorem medical_advisory_witness:
  "category medicalTender = lit ''medical'' \<and> 500000000 \<le> amount medicalTender \<and>
   amount medicalTender < 1000000000 \<and>
   \<not> daysToDeadline exampleRuntime medicalTender < 10 \<and>
   riskScore (analyzeTenderRisks exampleRuntime medicalTender) = 0 \<and>
   riskLevel (analyzeTenderRisks exampleRuntime medicalTender) = lit ''low'' \<and>
   warnings (analyzeTenderRisks exampleRuntime medicalTender) = [categoryWarning] \<and>
   recommendations (analyzeTenderRisks exampleRuntime medicalTender) = [currencyRecommendation] \<and>
   summary (analyzeTenderRisks exampleRuntime medicalTender) \<noteq>
     generateSummary medicalTender 0 (lit ''low'') [] []"
proof -
  have h: "category medicalTender = lit ''medical''" "500000000 \<le> amount medicalTender"
    "amount medicalTender < 1000000000"
    by (simp_all add: medicalTender_def)
  have d: "\<not> daysToDeadline exampleRuntime medicalTender < 10"
    by (simp add: medical_days)
  then have "\<not> (0 < daysToDeadline exampleRuntime medicalTender \<and>
      daysToDeadline exampleRuntime medicalTender < 10)"
    by simp
  from medical_advisory [OF h this] h d show ?thesis
    by blast
qed


section \<open>The clock the engine reads\<close>

lemma it_days:
  "daysToDeadline exampleRuntime itTender = 5"
  "daysToDeadline laterRuntime itTender = - 5"
  unfolding daysToDeadline_def mathCeil_days
  by (simp_all add: itTender_def exampleRuntime_def laterRuntime_def msPerDay_def)

lemma it_facts:
  "category itTender = lit ''it''" "amount itTender = 100000000"
  by (simp_all add: itTender_def)

text \<open>
  C2, as the engine is written. \<open>analyzeTenderRisks\<close> takes the tender alone and reads the
  clock itself (\<open>new Date()\<close>, line 55); the assessment depends on that reading only through
  \<open>daysToDeadline\<close>. Two runs on the same tender, in the same time zone, whose clock
  readings give the same day count return the same assessment, field by field.
\<close>

theorem same_days_same_assessment:
  assumes "localTZA rt' = localTZA rt"
    and "daysToDeadline rt' t = daysToDeadline rt t"
  shows "analyzeTenderRisks rt' t = analyzeTenderRisks rt t"
proof -
  have m: "startMonth rt' t = startMonth rt t" "endMonth rt' t = endMonth rt t"
    using assms(1) by (simp_all add: startMonth_def endMonth_def getMonth_def)
  then have w: "isWinterExecution rt' t = isWinterExecution rt t"
    by (simp add: isWinterExecution_def)
  have "seasonalRisks rt' t = seasonalRisks rt t"
    by (simp add: seasonalRisks_def fun_eq_iff w seasonalFinding_def m)
  moreover have "deadlineRisks rt' t = deadlineRisks rt t"
    by (simp add: deadlineRisks_def fun_eq_iff assms(2))
  moreover have "combinedRisks rt' t = combinedRisks rt t"
    by (simp add: combinedRisks_def fun_eq_iff w)
  ultimately have "rawAnalysis rt' t = rawAnalysis rt t"
    by (simp add: rawAnalysis_def)
  then show ?thesis
    by (simp add: analyzeTenderRisks_def)
qed

text \<open>Two readings an hour apart, both five days before the deadline of the IT tender.\<close>

theorem same_days_same_assessment_witness:
  "localTZA (exampleRuntime\<lparr>clock := 1735693200000\<rparr>) = localTZA exampleRuntime \<and>
   daysToDeadline (exampleRuntime\<lparr>clock := 1735693200000\<rparr>) itTender =
     daysToDeadline exampleRuntime itTender \<and>
   clock (exampleRuntime\<lparr>clock := 1735693200000\<rparr>) \<noteq> clock exampleRuntime \<and>
   analyzeTenderRisks (exampleRuntime\<lparr>clock := 1735693200000\<rparr>) itTender =
     analyzeTenderRisks exampleRuntime itTender"
proof -
  have t: "localTZA (exampleRuntime\<lparr>clock := 1735693200000\<rparr>) = localTZA exampleRuntime"
    by simp
  have d: "daysToDeadline (exampleRuntime\<lparr>clock := 1735693200000\<rparr>) itTender =
      daysToDeadline exampleRuntime itTender"
    unfolding daysToDeadline_def mathCeil_days
    by (simp add: itTender_def exampleRuntime_def msPerDay_def)
  have c: "clock (exampleRuntime\<lparr>clock := 1735693200000\<rparr>) \<noteq> clock exampleRuntime"
    by (simp add: exampleRuntime_def)
  from same_days_same_assessment [OF t d] t d c show ?thesis
    by blast
qed


text \<open>C2 as the specification states it has the timestamp injected, so that the result is
  fixed by the arguments. The same IT tender scores 15 when the clock reads five days before
  its deadline and 0 when it reads five days after: the runs differ although the argument is
  the same.\<close>

theorem clock_read_inside_counterexample:
  "riskScore (analyzeTenderRisks exampleRuntime itTender) = 15 \<and>
   riskScore (analyzeTenderRisks laterRuntime itTender) = 0 \<and>
   analyzeTenderRisks exampleRuntime itTender \<noteq> analyzeTenderRisks laterRuntime itTender"
proof -
  have n: "\<not> seasonalTrigger rt itTender \<and> \<not> timelineTrigger itTender" for rt
    by (rule not_construction) (simp add: it_facts)
  have "deadlineTrigger exampleRuntime itTender" and "\<not> deadlineTrigger laterRuntime itTender"
    by (simp_all add: deadlineTrigger_def it_days)
  then have "riskScore (analyzeTenderRisks exampleRuntime itTender) = 15"
    and "riskScore (analyzeTenderRisks laterRuntime itTender) = 0"
    using n by (simp_all add: analyzeTenderRisks_sel rawAnalysis_score it_facts)
  then show ?thesis
    by auto
qed


section \<open>The fallback of the AI analysis\<close>

lemma summary_not_placeholder: "generateSummary t s l rs ws \<noteq> noAnalysisText"
  by (simp add: generateSummary_def summaryHeader_def noAnalysisText_def)

lemma keyed: "\<not> noApiKey keyedRuntime"
  by (simp add: noApiKey_def keyedRuntime_def lit_def)

lemma aiResponse_emptyChoices:
  "aiResponse (Object [(lit ''choices'', Array [])]) = Inr (String noAnalysisText)"
  by (simp add: aiResponse_def nullish_def falsy_def optional_def)

text \<open>
  C8, as the service is written. \<open>aiAnalyzeTender\<close> always returns a result with
  \<open>success = true\<close> whose details are the engine's assessment. Without a credential, when
  the fetch is rejected, when the status is not a success, when the body does not parse and
  when the parsed body is \<open>null\<close> or has no \<open>choices\<close> (reading \<open>choices[0]\<close> then
  throws), the source is local and the text is the engine's summary. A parsed body with
  \<open>choices\<close> is not a failure for the service, whatever else it lacks: the source is ai and
  the text is the content of the first choice, or the fixed placeholder of line 338 when
  that content is missing or falsy.
\<close>

theorem ai_fallback:
  "success (aiAnalyzeTender rt t outcome) \<and>
   details (aiAnalyzeTender rt t outcome) = analyzeTenderRisks rt t \<and>
   (noApiKey rt \<or> (\<exists>msg. outcome = Rejected msg) \<or>
    (\<exists>status body. outcome = Response status body \<and> \<not> ok status) \<or>
    (\<exists>status msg. outcome = Response status (Malformed msg)) \<or>
    (\<exists>status data. outcome = Response status (Parsed data) \<and>
       (nullish data \<or> nullish (member data (lit ''choices''))))
    \<longrightarrow> source (aiAnalyzeTender rt t outcome) = lit ''local'' \<and>
        analysis (aiAnalyzeTender rt t outcome) = String (summary (analyzeTenderRisks rt t))) \<and>
   (\<not> noApiKey rt \<and> outcome = Response status (Parsed data) \<and> ok status \<and>
    \<not> nullish data \<and> \<not> nullish (member data (lit ''choices''))
    \<longrightarrow> source (aiAnalyzeTender rt t outcome) = lit ''ai'' \<and>
        analysis (aiAnalyzeTender rt t outcome) =
          (if falsy (optional (optional (element (member data (lit ''choices'')) 0)
                 (lit ''message'')) (lit ''content''))
           then String noAnalysisText
           else optional (optional (element (member data (lit ''choices'')) 0)
                 (lit ''message'')) (lit ''content'')))"
  by (auto simp add: aiAnalyzeTender_def requestAnalysis_def aiResponse_def Let_def
      split: fetchOutcome.splits responseBody.splits sum.splits)

text \<open>A rejected fetch and a status 500 fall back to the local summary; the body
  \<open>{"choices": []}\<close> under status 200 does not.\<close>

theorem ai_fallback_witness:
  "\<not> noApiKey keyedRuntime \<and>
   source (aiAnalyzeTender keyedRuntime itTender (Rejected (lit ''fetch failed''))) = lit ''local'' \<and>
   analysis (aiAnalyzeTender keyedRuntime itTender (Rejected (lit ''fetch failed''))) =
     String (summary (analyzeTenderRisks keyedRuntime itTender)) \<and>
   source (aiAnalyzeTender keyedRuntime itTender (Response 500 (Malformed []))) = lit ''local'' \<and>
   ok 200 \<and> emptyChoices = Response 200 (Parsed (Object [(lit ''choices'', Array [])])) \<and>
   source (aiAnalyzeTender keyedRuntime itTender emptyChoices) = lit ''ai''"
proof -
  have o: "ok 200" "\<not> ok 500"
    by (simp_all add: ok_def)
  have n: "\<not> nullish (Object [(lit ''choices'', Array [])])"
    "\<not> nullish (member (Object [(lit ''choices'', Array [])]) (lit ''choices''))"
    by (simp_all add: nullish_def)
  have e: "emptyChoices = Response 200 (Parsed (Object [(lit ''choices'', Array [])]))"
    by (simp add: emptyChoices_def)
  from ai_fallback [of keyedRuntime itTender "Rejected (lit ''fetch failed'')"]
  have 1: "source (aiAnalyzeTender keyedRuntime itTender (Rejected (lit ''fetch failed''))) = lit ''local'' \<and>
    analysis (aiAnalyzeTender keyedRuntime itTender (Rejected (lit ''fetch failed''))) =
     String (summary (analyzeTenderRisks keyedRuntime itTender))"
    by blast
  from ai_fallback [of keyedRuntime itTender "Response 500 (Malformed [])"] o(2)
  have 2: "source (aiAnalyzeTender keyedRuntime itTender (Response 500 (Malformed []))) = lit ''local''"
    by blast
  from ai_fallback [of keyedRuntime itTender emptyChoices 200 "Object [(lit ''choices'', Array [])]"]
    keyed o(1) n e
  have 3: "source (aiAnalyzeTender keyedRuntime itTender emptyChoices) = lit ''ai''"
    by blast
  from keyed 1 2 3 o(1) e show ?thesis
    by blast
qed

text \<open>C8 as the specification states it counts a malformed response among the failures
  that yield the local summary. For the body \<open>{"choices": []}\<close> the service reports the
  source ai and returns the placeholder, which is not the engine's summary.\<close>

theorem ai_placeholder_counterexample:
  "source (aiAnalyzeTender keyedRuntime itTender emptyChoices) = lit ''ai'' \<and>
   source (aiAnalyzeTender keyedRuntime itTender emptyChoices) \<noteq> lit ''local'' \<and>
   analysis (aiAnalyzeTender keyedRuntime itTender emptyChoices) = String noAnalysisText \<and>
   analysis (aiAnalyzeTender keyedRuntime itTender emptyChoices) \<noteq>
     String (summary (analyzeTenderRisks keyedRuntime itTender))"
  using summary_not_placeholder summary_not_placeholder [THEN not_sym]
  by (simp add: aiAnalyzeTender_def keyed requestAnalysis_def emptyChoices_def ok_def
      aiResponse_emptyChoices analyzeTenderRisks_sel)

section \<open>The pollutant classifier on known and unknown kinds\<close>




section \<open>The amounts that the descriptions print\<close>

text \<open>The quotient that \<open>formatAmount\<close> prints is the double: 1.15 billion prints as 1.1,
  the double nearest to 1.15 lying below it, and 1.25 billion, a double itself, as 1.3.\<close>

lemma divideNumbers_examples:
  "divideNumbers 1150000000 1000000000 = 5179139571476070 / 4503599627370496"
  "divideNumbers 1250000000 1000000000 = 5 / 4"
  "divideNumbers 2500000000 1000000000 = 5 / 2"
  by (simp_all add: divideNumbers_def log2floor.simps Let_def)

lemma formatAmount_examples:
  "formatAmount 1150000000 = lit ''1.1'' @ billionsSuffix"
  "formatAmount 1250000000 = lit ''1.3'' @ billionsSuffix"
  "formatAmount 2500000000 = lit ''2.5'' @ billionsSuffix"
proof -
  have "\<lfloor>(13510798882111487::rat) / 1125899906842624\<rfloor> = 11" and "\<lfloor>(51::rat) / 2\<rfloor> = 25"
    by (simp_all add: floor_eq_iff)
  then show "formatAmount 1150000000 = lit ''1.1'' @ billionsSuffix"
    and "formatAmount 1250000000 = lit ''1.3'' @ billionsSuffix"
    and "formatAmount 2500000000 = lit ''2.5'' @ billionsSuffix"
    by (simp_all add: formatAmount_def divideNumbers_examples toFixed_def digits.simps Let_def
        lit_def)
qed

end
